theory Spec2Isabelle
  imports Main "HOL-Library.Monad_Syntax"
begin

section \<open>JavaScript values\<close>

text \<open>
  The two scripts consume values produced by \<^verbatim>\<open>JSON.parse\<close> and read them with the
  dynamic operators of JavaScript (\<^verbatim>\<open>?.\<close>, \<^verbatim>\<open>||\<close>, \<^verbatim>\<open>??\<close>, truthiness, \<^verbatim>\<open>String\<close>).
  A value is therefore modelled untyped.  Numbers are integers (identifiers, counts,
  timestamps), printed in decimal.  An array carries, besides its elements, the named
  properties that an assignment such as \<^verbatim>\<open>data.error = ...\<close> may add to it; objects are
  association lists read with \<open>map_of\<close>.
\<close>

datatype jsval =
    JUndefined
  | JNull
  | JBool bool
  | JNum int
  | JStr string
  | JArr "jsval list" "(string \<times> jsval) list"
  | JObj "(string \<times> jsval) list"

fun truthy :: "jsval \<Rightarrow> bool" where
  "truthy JUndefined = False"
| "truthy JNull = False"
| "truthy (JBool b) = b"
| "truthy (JNum n) = (n \<noteq> 0)"
| "truthy (JStr s) = (s \<noteq> [])"
| "truthy (JArr xs ps) = True"
| "truthy (JObj ps) = True"

fun nullish :: "jsval \<Rightarrow> bool" where
  "nullish JUndefined = True"
| "nullish JNull = True"
| "nullish v = False"

text \<open>\<^verbatim>\<open>a || b\<close> and \<^verbatim>\<open>a ?? b\<close>.\<close>

definition js_or :: "jsval \<Rightarrow> jsval \<Rightarrow> jsval" where
  "js_or a b = (if truthy a then a else b)"

definition js_coalesce :: "jsval \<Rightarrow> jsval \<Rightarrow> jsval" where
  "js_coalesce a b = (if nullish a then b else a)"

definition own_prop :: "(string \<times> jsval) list \<Rightarrow> string \<Rightarrow> jsval" where
  "own_prop ps k = (case map_of ps k of None \<Rightarrow> JUndefined | Some v \<Rightarrow> v)"

text \<open>
  \<^verbatim>\<open>v.k\<close> for a base \<open>v\<close> that is neither \<^verbatim>\<open>null\<close> nor \<^verbatim>\<open>undefined\<close>, and for the
  property names the scripts read (none of them is inherited from a prototype, except
  \<^verbatim>\<open>length\<close> of arrays and strings).  Every plain \<^verbatim>\<open>.\<close> of the scripts is guarded against a
  nullish base, except \<^verbatim>\<open>round.round\<close> in \<^verbatim>\<open>renderRounds\<close> and \<^verbatim>\<open>config.apiUrl\<close> in the
  watcher, where the \<^verbatim>\<open>TypeError\<close> is written out in the model.
\<close>

fun get_prop :: "jsval \<Rightarrow> string \<Rightarrow> jsval" where
  "get_prop (JObj ps) k = own_prop ps k"
| "get_prop (JArr xs ps) k = (if k = ''length'' then JNum (int (length xs)) else own_prop ps k)"
| "get_prop (JStr s) k = (if k = ''length'' then JNum (int (length s)) else JUndefined)"
| "get_prop v k = JUndefined"

text \<open>\<^verbatim>\<open>v?.k\<close>.\<close>

definition opt_prop :: "jsval \<Rightarrow> string \<Rightarrow> jsval" where
  "opt_prop v k = (if nullish v then JUndefined else get_prop v k)"

text \<open>
  \<^verbatim>\<open>v.k = x\<close> in a classic (non-strict) script, which both files are: on an object or an
  array the property is created or overwritten, on a primitive the assignment is silently
  dropped.
\<close>

fun update_prop :: "string \<Rightarrow> jsval \<Rightarrow> (string \<times> jsval) list \<Rightarrow> (string \<times> jsval) list" where
  "update_prop k x [] = [(k, x)]"
| "update_prop k x (p # ps) = (if fst p = k then (k, x) # ps else p # update_prop k x ps)"

fun assign_prop :: "jsval \<Rightarrow> string \<Rightarrow> jsval \<Rightarrow> jsval" where
  "assign_prop (JObj ps) k x = JObj (update_prop k x ps)"
| "assign_prop (JArr xs ps) k x = (if k = ''length'' then JArr xs ps else JArr xs (update_prop k x ps))"
| "assign_prop v k x = v"

subsection \<open>Conversion to a string\<close>

fun digits :: "nat \<Rightarrow> string" where
  "digits n = (if n < 10 then [''0123456789'' ! n] else digits (n div 10) @ [''0123456789'' ! (n mod 10)])"

declare digits.simps [simp del]

definition show_int :: "int \<Rightarrow> string" where
  "show_int n = (if n < 0 then CHR ''-'' # digits (nat (- n)) else digits (nat n))"

text \<open>
  \<^verbatim>\<open>String(v)\<close>, the conversion also applied by \<^verbatim>\<open>textContent\<close>, \<^verbatim>\<open>dataset\<close>, \<^verbatim>\<open>href\<close>,
  template literals and \<^verbatim>\<open>parseInt\<close>.  \<open>None\<close> is the \<^verbatim>\<open>TypeError\<close> of an object whose own
  \<^verbatim>\<open>toString\<close> property (a JSON value, hence not callable) hides the inherited method.
  An array joins its elements with commas, \<^verbatim>\<open>null\<close> and \<^verbatim>\<open>undefined\<close> elements printing as
  the empty string.
\<close>

fun to_string :: "jsval \<Rightarrow> string option"
  and join_elements :: "jsval list \<Rightarrow> string option" where
  "to_string JUndefined = Some ''undefined''"
| "to_string JNull = Some ''null''"
| "to_string (JBool b) = Some (if b then ''true'' else ''false'')"
| "to_string (JNum n) = Some (show_int n)"
| "to_string (JStr s) = Some s"
| "to_string (JArr xs ps) =
     (if map_of ps ''toString'' \<noteq> None then None
      else if map_of ps ''join'' \<noteq> None then Some ''[object Array]''
      else join_elements xs)"
| "to_string (JObj ps) =
     (if map_of ps ''toString'' \<noteq> None then None else Some ''[object Object]'')"
| "join_elements [] = Some []"
| "join_elements (x # xs) =
     (case (if nullish x then Some [] else to_string x) of
        None \<Rightarrow> None
      | Some s \<Rightarrow>
          (if xs = [] then Some s
           else (case join_elements xs of None \<Rightarrow> None | Some r \<Rightarrow> Some (s @ '','' @ r))))"

section \<open>The document\<close>

text \<open>
  A DOM node is a text node or an element with its local name, its content attributes
  in order, and its child nodes.  \<^verbatim>\<open>className\<close>, \<^verbatim>\<open>dataset\<close>, \<^verbatim>\<open>hidden\<close> and \<^verbatim>\<open>href\<close> are the
  attributes \<^verbatim>\<open>class\<close>, \<^verbatim>\<open>data-*\<close>, \<^verbatim>\<open>hidden\<close> and \<^verbatim>\<open>href\<close>.
\<close>

datatype node =
    Text string
  | Element string "(string \<times> string) list" "node list"

fun isElement :: "node \<Rightarrow> bool" where
  "isElement (Element t a c) = True"
| "isElement (Text s) = False"

fun childNodes :: "node \<Rightarrow> node list" where
  "childNodes (Element t a c) = c"
| "childNodes (Text s) = []"

fun attributes :: "node \<Rightarrow> (string \<times> string) list" where
  "attributes (Element t a c) = a"
| "attributes (Text s) = []"

fun tagName :: "node \<Rightarrow> string" where
  "tagName (Element t a c) = t"
| "tagName (Text s) = []"

text \<open>\<^verbatim>\<open>section.children\<close>: the element children only.\<close>

definition children :: "node \<Rightarrow> node list" where
  "children e = filter isElement (childNodes e)"

definition getAttribute :: "node \<Rightarrow> string \<Rightarrow> string option" where
  "getAttribute e k = map_of (attributes e) k"


fun set_attr :: "string \<Rightarrow> string \<Rightarrow> (string \<times> string) list \<Rightarrow> (string \<times> string) list" where
  "set_attr k v [] = [(k, v)]"
| "set_attr k v (p # ps) = (if fst p = k then (k, v) # ps else p # set_attr k v ps)"

fun setAttribute :: "string \<Rightarrow> string \<Rightarrow> node \<Rightarrow> node" where
  "setAttribute k v (Element t a c) = Element t (set_attr k v a) c"
| "setAttribute k v (Text s) = Text s"

fun removeAttribute :: "string \<Rightarrow> node \<Rightarrow> node" where
  "removeAttribute k (Element t a c) = Element t (filter (\<lambda>p. fst p \<noteq> k) a) c"
| "removeAttribute k (Text s) = Text s"

text \<open>Setting \<^verbatim>\<open>textContent\<close> replaces all children by one text node, or by none for the
  empty string.\<close>

definition text_nodes :: "string \<Rightarrow> node list" where
  "text_nodes s = (if s = [] then [] else [Text s])"

fun set_textContent :: "string \<Rightarrow> node \<Rightarrow> node" where
  "set_textContent s (Element t a c) = Element t a (text_nodes s)"
| "set_textContent s (Text x) = Text s"

fun appendChild :: "node \<Rightarrow> node \<Rightarrow> node" where
  "appendChild (Element t a c) n = Element t a (c @ [n])"
| "appendChild (Text s) n = Text s"

text \<open>The text of a node: its text descendants, concatenated in document order.\<close>

fun textContent :: "node \<Rightarrow> string"
  and textContent_list :: "node list \<Rightarrow> string" where
  "textContent (Text s) = s"
| "textContent (Element t a c) = textContent_list c"
| "textContent_list [] = []"
| "textContent_list (n # ns) = textContent n @ textContent_list ns"


subsection \<open>Handles and selectors\<close>

text \<open>
  The scripts hold references to elements and mutate them in place.  In the model the
  document is a value and a reference is the path (child indices) from the root to the
  element; \<^verbatim>\<open>null\<close> is \<open>None\<close>.  Between taking a reference and using it the scripts only
  change what lies below the referenced element, so a path keeps denoting its element.
\<close>

type_synonym path = "nat list"

fun node_at :: "node \<Rightarrow> path \<Rightarrow> node option" where
  "node_at n [] = Some n"
| "node_at n (i # p) =
     (if i < length (childNodes n) then node_at (childNodes n ! i) p else None)"

fun update_at :: "path \<Rightarrow> (node \<Rightarrow> node) \<Rightarrow> node \<Rightarrow> node" where
  "update_at [] f n = f n"
| "update_at (i # p) f (Element t a c) =
     (if i < length c then Element t a (c[i := update_at p f (c ! i)]) else Element t a c)"
| "update_at (i # p) f (Text s) = Text s"

text \<open>
  \<^verbatim>\<open>e.querySelector('[k]')\<close>: the first element, in document order, among the descendants
  of \<open>e\<close> that has an attribute \<open>k\<close>.
\<close>

definition shift :: "path option \<Rightarrow> path option" where
  "shift r = (case r of None \<Rightarrow> None | Some [] \<Rightarrow> None | Some (i # p) \<Rightarrow> Some (Suc i # p))"

fun find_first :: "string \<Rightarrow> node list \<Rightarrow> path option" where
  "find_first k [] = None"
| "find_first k (Text s # ns) = shift (find_first k ns)"
| "find_first k (Element t a c # ns) =
     (if map_of a k \<noteq> None then Some [0]
      else (case find_first k c of
              Some p \<Rightarrow> Some (0 # p)
            | None \<Rightarrow> shift (find_first k ns)))"

definition querySelector :: "node \<Rightarrow> string \<Rightarrow> path option" where
  "querySelector e k = find_first k (childNodes e)"

text \<open>\<^verbatim>\<open>section.querySelector('[k]')\<close> for the element referenced by \<open>sp\<close> in \<open>doc\<close>.\<close>

definition querySelector_at :: "node \<Rightarrow> path \<Rightarrow> string \<Rightarrow> path option" where
  "querySelector_at doc sp k =
     (case node_at doc sp of
        None \<Rightarrow> None
      | Some e \<Rightarrow> (case querySelector e k of None \<Rightarrow> None | Some q \<Rightarrow> Some (sp @ q)))"

subsection \<open>Exceptions\<close>

text \<open>
  A function that mutates the document either returns or throws (here always a
  \<^verbatim>\<open>TypeError\<close>: a method missing on an ill-shaped value, or a failed string conversion);
  in both cases the document is left as it was at that moment.
\<close>

datatype 'a outcome = Done 'a | Throw 'a

fun result :: "'a outcome \<Rightarrow> 'a" where
  "result (Done d) = d"
| "result (Throw d) = d"

fun run_steps :: "('a \<Rightarrow> 'a outcome) list \<Rightarrow> 'a \<Rightarrow> 'a outcome" where
  "run_steps [] d = Done d"
| "run_steps (f # fs) d = (case f d of Done d' \<Rightarrow> run_steps fs d' | Throw d' \<Rightarrow> Throw d')"

text \<open>\<^verbatim>\<open>el.textContent = v\<close> for the element referenced by \<open>p\<close>.\<close>

definition assign_textContent :: "path \<Rightarrow> jsval \<Rightarrow> node \<Rightarrow> node outcome" where
  "assign_textContent p v doc =
     (case to_string v of
        None \<Rightarrow> Throw doc
      | Some s \<Rightarrow> Done (update_at p (set_textContent s) doc))"

section \<open>The renderer (\<^verbatim>\<open>static/challonge_live.js\<close>)\<close>

subsection \<open>\<^verbatim>\<open>removeContent\<close>\<close>

text \<open>\<^verbatim>\<open>section.removeChild(section.lastElementChild)\<close> on the list of child nodes.\<close>

fun remove_last_element :: "node list \<Rightarrow> node list" where
  "remove_last_element [] = []"
| "remove_last_element (n # ns) =
     (if isElement n \<and> filter isElement ns = [] then ns else n # remove_last_element ns)"

lemma length_remove_last_element:
  "filter isElement ns \<noteq> [] \<Longrightarrow>
   length (filter isElement (remove_last_element ns)) < length (filter isElement ns)"
  by (induction ns) (auto split: if_splits)

function remove_loop :: "node list \<Rightarrow> node list" where
  "remove_loop ns =
     (if length (filter isElement ns) > 1 then remove_loop (remove_last_element ns) else ns)"
  by pat_completeness auto
termination
proof (relation "measure (\<lambda>ns. length (filter isElement ns))")
  show "wf (measure (\<lambda>ns. length (filter isElement ns)))" by simp
next
  fix ns :: "node list"
  assume "1 < length (filter isElement ns)"
  then have "filter isElement ns \<noteq> []" by auto
  then show "(remove_last_element ns, ns) \<in> measure (\<lambda>ns. length (filter isElement ns))"
    by (simp add: length_remove_last_element)
qed

declare remove_loop.simps [simp del]

fun remove_trailing :: "node \<Rightarrow> node" where
  "remove_trailing (Element t a c) = Element t a (remove_loop c)"
| "remove_trailing (Text s) = Text s"

definition removeContent :: "path option \<Rightarrow> node \<Rightarrow> node" where
  "removeContent section doc =
     (case section of None \<Rightarrow> doc | Some p \<Rightarrow> update_at p remove_trailing doc)"

text \<open>\<^verbatim>\<open>section.appendChild(n)\<close> for the element referenced by \<open>p\<close>.\<close>

definition append_at :: "path \<Rightarrow> node \<Rightarrow> node \<Rightarrow> node" where
  "append_at p n doc = update_at p (\<lambda>e. appendChild e n) doc"

subsection \<open>Building elements\<close>

text \<open>An element created with a class and a text: \<^verbatim>\<open>createElement\<close>, \<^verbatim>\<open>className\<close>,
  \<^verbatim>\<open>textContent\<close>.\<close>

definition text_element :: "string \<Rightarrow> string \<Rightarrow> string \<Rightarrow> node" where
  "text_element tag cls s = Element tag [(''class'', cls)] (text_nodes s)"

definition empty_copy :: "string \<Rightarrow> node" where
  "empty_copy s = text_element ''p'' ''empty-copy'' s"

text \<open>
  \<^verbatim>\<open>if (v !== undefined && v !== null) el.dataset.name = v\<close>, under a further guard: the
  attributes added to the element being built.  \<open>None\<close>: the string conversion threw.
\<close>

definition dataset_attr :: "string \<Rightarrow> bool \<Rightarrow> jsval \<Rightarrow> (string \<times> string) list option" where
  "dataset_attr name guard v =
     (if guard \<and> v \<noteq> JUndefined \<and> v \<noteq> JNull
      then map_option (\<lambda>s. [(name, s)]) (to_string v)
      else Some [])"

text \<open>Lines 59 to 64 and 139 to 144: the score element, created only for a truthy
  \<^verbatim>\<open>score_text\<close>.\<close>

definition score_span :: "jsval \<Rightarrow> node list option" where
  "score_span v =
     (if truthy v
      then map_option (\<lambda>s. [text_element ''span'' ''match-score'' s]) (to_string v)
      else Some [])"

text \<open>\<^verbatim>\<open>createMatchRow\<close> (lines 19 to 71).  \<open>None\<close>: a string conversion threw.\<close>

definition createMatchRow :: "jsval \<Rightarrow> node option" where
  "createMatchRow match = do {
     matchId \<leftarrow> dataset_attr ''data-match-id'' (truthy match) (get_prop match ''id'');
     roundText \<leftarrow> to_string (js_or (opt_prop match ''round_label'') (JStr ''Round''));
     player1 \<leftarrow> to_string (js_or (opt_prop match ''player1_name'') (JStr ''TBD''));
     player2 \<leftarrow> to_string (js_or (opt_prop match ''player2_name'') (JStr ''TBD''));
     score \<leftarrow> score_span (opt_prop match ''score_text'');
     state \<leftarrow> to_string (js_or (opt_prop match ''status_text'') (JStr ''''));
     Some (Element ''li'' ((''class'', ''match-row'') # matchId)
       [text_element ''div'' ''match-round'' roundText,
        Element ''div'' [(''class'', ''match-players'')]
          [text_element ''span''
             (if opt_prop match ''winner_slot'' = JStr ''player1''
              then ''match-player winner'' else ''match-player'') player1,
           text_element ''span'' ''match-vs'' ''vs'',
           text_element ''span''
             (if opt_prop match ''winner_slot'' = JStr ''player2''
              then ''match-player winner'' else ''match-player'') player2],
        Element ''div'' [(''class'', ''match-meta'')]
          (score @ [text_element ''span'' ''match-state'' state])])
   }"

text \<open>
  \<^verbatim>\<open>v.forEach(f)\<close> visits the elements of an array; on anything else (and on an array whose
  own \<^verbatim>\<open>forEach\<close> property hides the method) the call throws.
\<close>

definition forEach_elements :: "jsval \<Rightarrow> jsval list option" where
  "forEach_elements v =
     (case v of
        JArr xs ps \<Rightarrow> (if map_of ps ''forEach'' \<noteq> None then None else Some xs)
      | _ \<Rightarrow> None)"

fun all_or_none :: "'a option list \<Rightarrow> 'a list option" where
  "all_or_none [] = Some []"
| "all_or_none (x # xs) =
     (case x of
        None \<Rightarrow> None
      | Some y \<Rightarrow> (case all_or_none xs of None \<Rightarrow> None | Some ys \<Rightarrow> Some (y # ys)))"

text \<open>\<^verbatim>\<open>matches.forEach((match) => list.appendChild(createMatchRow(match)))\<close>: the rows, or
  \<open>None\<close> when the loop throws.\<close>

definition match_rows :: "jsval \<Rightarrow> node list option" where
  "match_rows matches =
     (case forEach_elements matches of
        None \<Rightarrow> None
      | Some xs \<Rightarrow> all_or_none (map createMatchRow xs))"

subsection \<open>The three region renderers\<close>

text \<open>
  Each takes the reference to its section (\<open>None\<close> when the page has no such element)
  and the piece of the payload to show.  The new content is built before it is appended,
  so an exception while building leaves the section cleared.
\<close>

definition renderMatchList :: "path option \<Rightarrow> jsval \<Rightarrow> string \<Rightarrow> node \<Rightarrow> node outcome" where
  "renderMatchList section matches emptyText doc =
     (case section of
        None \<Rightarrow> Done doc
      | Some p \<Rightarrow>
          let doc1 = removeContent (Some p) doc in
          if \<not> truthy matches \<or> \<not> truthy (get_prop matches ''length'')
          then Done (append_at p (empty_copy emptyText) doc1)
          else
            (case match_rows matches of
               None \<Rightarrow> Throw doc1
             | Some rows \<Rightarrow>
                 Done (append_at p (Element ''ul'' [(''class'', ''match-list'')] rows) doc1)))"

text \<open>The card of lines 101 to 149, for a truthy \<open>match\<close>.\<close>

definition current_match_card :: "jsval \<Rightarrow> node option" where
  "current_match_card match = do {
     matchId \<leftarrow> dataset_attr ''data-current-match-id'' True (get_prop match ''id'');
     roundText \<leftarrow> to_string (js_or (get_prop match ''round_label'') (JStr ''Round''));
     player1 \<leftarrow> to_string (js_or (get_prop match ''player1_name'') (JStr ''TBD''));
     player2 \<leftarrow> to_string (js_or (get_prop match ''player2_name'') (JStr ''TBD''));
     score \<leftarrow> score_span (get_prop match ''score_text'');
     state \<leftarrow> to_string (js_or (get_prop match ''status_text'') (JStr ''''));
     Some (Element ''div'' ((''class'', ''current-match-card'') # matchId)
       [text_element ''div'' ''match-round'' roundText,
        Element ''div'' [(''class'', ''current-versus'')]
          [text_element ''div''
             (if get_prop match ''winner_slot'' = JStr ''player1''
              then ''current-player winner'' else ''current-player'') player1,
           text_element ''div'' ''current-vs'' ''vs'',
           text_element ''div''
             (if get_prop match ''winner_slot'' = JStr ''player2''
              then ''current-player winner'' else ''current-player'') player2],
        Element ''div'' [(''class'', ''current-meta'')]
          (score @ [text_element ''span'' ''match-state'' state])])
   }"

definition renderCurrent :: "path option \<Rightarrow> jsval \<Rightarrow> node \<Rightarrow> node outcome" where
  "renderCurrent section match doc =
     (case section of
        None \<Rightarrow> Done doc
      | Some p \<Rightarrow>
          let doc1 = removeContent (Some p) doc in
          if \<not> truthy match
          then Done (append_at p (empty_copy ''No live match right now.'') doc1)
          else
            (case current_match_card match of
               None \<Rightarrow> Throw doc1
             | Some cardEl \<Rightarrow> Done (append_at p cardEl doc1)))"

text \<open>
  One round of the grid (lines 166 to 182).  Reading \<^verbatim>\<open>round.round\<close> throws on a \<^verbatim>\<open>null\<close>
  entry; the template literal is evaluated only when \<^verbatim>\<open>round_label\<close> is falsy.
\<close>

definition round_card :: "jsval \<Rightarrow> node option" where
  "round_card rnd =
     (if nullish rnd then None
      else do {
        roundAttr \<leftarrow> dataset_attr ''data-round'' True (get_prop rnd ''round'');
        title \<leftarrow>
          (if truthy (get_prop rnd ''round_label'')
           then to_string (get_prop rnd ''round_label'')
           else map_option (\<lambda>s. ''Round '' @ s)
                  (to_string (js_coalesce (get_prop rnd ''round'') (JStr ''''))));
        rows \<leftarrow> match_rows (js_or (get_prop rnd ''matches'') (JArr [] []));
        Some (Element ''div'' ((''class'', ''round-card'') # roundAttr)
          [text_element ''h4'' ''round-title'' title,
           Element ''ul'' [(''class'', ''match-list compact'')] rows])
      })"

definition renderRounds :: "path option \<Rightarrow> jsval \<Rightarrow> node \<Rightarrow> node outcome" where
  "renderRounds section rounds doc =
     (case section of
        None \<Rightarrow> Done doc
      | Some p \<Rightarrow>
          let doc1 = removeContent (Some p) doc in
          if \<not> truthy rounds \<or> \<not> truthy (get_prop rounds ''length'')
          then Done (append_at p
                 (empty_copy ''Bracket data will appear once matches are seeded.'') doc1)
          else
            (case forEach_elements rounds of
               None \<Rightarrow> Throw doc1
             | Some rs \<Rightarrow>
                 (case all_or_none (map round_card rs) of
                    None \<Rightarrow> Throw doc1
                  | Some cards \<Rightarrow>
                      Done (append_at p (Element ''div'' [(''class'', ''rounds-grid'')] cards) doc1))))"

subsection \<open>\<^verbatim>\<open>updateStatus\<close>\<close>

text \<open>
  The string form of \<^verbatim>\<open>stateStrings[k]\<close> when that is truthy.  Besides the four own
  entries, the object literal inherits \<^verbatim>\<open>constructor\<close> and \<^verbatim>\<open>__proto__\<close> from
  \<^verbatim>\<open>Object.prototype\<close>, the only inherited names without a capital letter.
\<close>

definition stateStrings :: "string \<Rightarrow> string option" where
  "stateStrings k =
     (if k = ''complete'' then Some ''Final''
      else if k = ''underway'' then Some ''In Progress''
      else if k = ''pending'' then Some ''Upcoming''
      else if k = ''open'' then Some ''Upcoming''
      else if k = ''constructor'' then Some ''function Object() { [native code] }''
      else if k = ''__proto__'' then Some ''[object Object]''
      else None)"

text \<open>
  \<^verbatim>\<open>toLowerCase\<close> on the bytes of a string: the ASCII capitals change.  (No other
  character becomes a string of ASCII letters only, so the table is consulted with the
  right key.)
\<close>

definition lower_char :: "char \<Rightarrow> char" where
  "lower_char c =
     (case map_of (zip ''ABCDEFGHIJKLMNOPQRSTUVWXYZ'' ''abcdefghijklmnopqrstuvwxyz'') c of
        None \<Rightarrow> c
      | Some l \<Rightarrow> l)"

definition toLowerCase :: "string \<Rightarrow> string" where
  "toLowerCase s = map lower_char s"

definition em_dash :: string where
  "em_dash = [CHR 0xE2, CHR 0x80, CHR 0x94]"

text \<open>Lines 192 to 195.  \<open>sp\<close> references the status section.\<close>

definition status_name :: "path \<Rightarrow> jsval \<Rightarrow> node \<Rightarrow> node outcome" where
  "status_name sp tournament doc =
     (case querySelector_at doc sp ''data-challonge-name'' of
        None \<Rightarrow> Done doc
      | Some nameEl \<Rightarrow>
          assign_textContent nameEl
            (js_or (opt_prop tournament ''name'') (JStr ''Challonge Tournament'')) doc)"

text \<open>Lines 196 to 210.  A truthy \<^verbatim>\<open>state\<close> that is not a string has no \<^verbatim>\<open>toLowerCase\<close>.\<close>

definition status_state :: "path \<Rightarrow> jsval \<Rightarrow> node \<Rightarrow> node outcome" where
  "status_state sp tournament doc =
     (case querySelector_at doc sp ''data-challonge-state'' of
        None \<Rightarrow> Done doc
      | Some stateEl \<Rightarrow>
          if truthy (opt_prop tournament ''state'')
          then
            (case get_prop tournament ''state'' of
               JStr s \<Rightarrow>
                 let stateLabel = (case stateStrings (toLowerCase s) of Some l \<Rightarrow> l | None \<Rightarrow> s) in
                 Done (update_at stateEl
                   (\<lambda>e. appendChild
                           (appendChild (set_textContent '''' e) (Text ''State: ''))
                           (text_element ''span'' ''highlight'' stateLabel)) doc)
             | _ \<Rightarrow> Throw doc)
          else assign_textContent stateEl (JStr ''Waiting for tournament details'') doc)"

text \<open>Lines 211 to 218: the two counters.\<close>

definition status_count :: "string \<Rightarrow> string \<Rightarrow> path \<Rightarrow> jsval \<Rightarrow> node \<Rightarrow> node outcome" where
  "status_count marker field sp tournament doc =
     (case querySelector_at doc sp marker of
        None \<Rightarrow> Done doc
      | Some el \<Rightarrow>
          assign_textContent el
            (if \<not> nullish (opt_prop tournament field) then get_prop tournament field
             else JStr em_dash) doc)"

text \<open>Lines 219 to 222.\<close>

definition status_updated :: "path \<Rightarrow> jsval \<Rightarrow> node \<Rightarrow> node outcome" where
  "status_updated sp payload doc =
     (case querySelector_at doc sp ''data-challonge-updated'' of
        None \<Rightarrow> Done doc
      | Some updatedEl \<Rightarrow>
          assign_textContent updatedEl (js_or (opt_prop payload ''fetched_at'') (JStr em_dash)) doc)"

text \<open>
  Lines 223 to 233.  \<^verbatim>\<open>href\<close> is a reflected attribute on the elements that have it; on
  any other element the assignment creates a plain property and leaves the tree alone.
\<close>

definition assign_href :: "jsval \<Rightarrow> node \<Rightarrow> node option" where
  "assign_href v e =
     (if tagName e \<in> set [''a'', ''area'', ''link'', ''base'']
      then map_option (\<lambda>s. setAttribute ''href'' s e) (to_string v)
      else Some e)"

definition status_link :: "path \<Rightarrow> jsval \<Rightarrow> node \<Rightarrow> node outcome" where
  "status_link sp tournament doc =
     (case querySelector_at doc sp ''data-challonge-link'' of
        None \<Rightarrow> Done doc
      | Some linkEl \<Rightarrow>
          (case node_at doc linkEl of
             None \<Rightarrow> Done doc
           | Some e \<Rightarrow>
               if truthy (opt_prop tournament ''url'')
               then
                 (case assign_href (opt_prop tournament ''url'') e of
                    None \<Rightarrow> Throw doc
                  | Some e' \<Rightarrow> Done (update_at linkEl (\<lambda>x. removeAttribute ''hidden'' e') doc))
               else
                 (case assign_href (JStr ''#'') e of
                    None \<Rightarrow> Throw doc
                  | Some e' \<Rightarrow> Done (update_at linkEl (\<lambda>x. setAttribute ''hidden'' '''' e') doc))))"

text \<open>Lines 234 to 248: the error banner.\<close>

definition status_error :: "path \<Rightarrow> jsval \<Rightarrow> node \<Rightarrow> node outcome" where
  "status_error sp payload doc =
     (case querySelector_at doc sp ''data-challonge-error'' of
        None \<Rightarrow> Done doc
      | Some errorEl \<Rightarrow>
          let configured = (opt_prop payload ''configured'' \<noteq> JBool False);
              error = opt_prop payload ''error''
          in
          if \<not> configured
          then Done (update_at errorEl
                 (\<lambda>e. removeAttribute ''hidden''
                         (set_textContent ''Challonge integration is not configured.'' e)) doc)
          else if truthy error
          then
            (case to_string error of
               None \<Rightarrow> Throw doc
             | Some s \<Rightarrow>
                 Done (update_at errorEl (\<lambda>e. removeAttribute ''hidden'' (set_textContent s e)) doc))
          else Done (update_at errorEl
                 (\<lambda>e. setAttribute ''hidden'' '''' (set_textContent '''' e)) doc))"

definition updateStatus :: "jsval \<Rightarrow> node \<Rightarrow> node outcome" where
  "updateStatus payload root =
     (case querySelector root ''data-challonge-status'' of
        None \<Rightarrow> Done root
      | Some section \<Rightarrow>
          let tournament = js_or (opt_prop payload ''tournament'') JNull in
          run_steps
            [status_name section tournament,
             status_state section tournament,
             status_count ''data-challonge-participants'' ''total_participants'' section tournament,
             status_count ''data-challonge-matches'' ''total_matches'' section tournament,
             status_updated section payload,
             status_link section tournament,
             status_error section payload] root)"

subsection \<open>\<^verbatim>\<open>applyPayload\<close>\<close>

text \<open>
  The four region passes of lines 254 to 273, each a query under the root followed by
  the renderer.  \<open>root\<close> is the element found at start-up, never \<^verbatim>\<open>null\<close> here.
\<close>

definition render_current_region :: "jsval \<Rightarrow> node \<Rightarrow> node outcome" where
  "render_current_region payload root =
     renderCurrent (querySelector root ''data-challonge-current'')
       (js_or (opt_prop (js_or (opt_prop payload ''tournament'') JNull) ''current_match'') JNull) root"

definition render_upcoming_region :: "jsval \<Rightarrow> node \<Rightarrow> node outcome" where
  "render_upcoming_region payload root =
     renderMatchList (querySelector root ''data-challonge-upcoming'')
       (js_or (opt_prop (js_or (opt_prop payload ''tournament'') JNull) ''upcoming_matches'') (JArr [] []))
       ''No upcoming matches have been posted.'' root"

definition render_recent_region :: "jsval \<Rightarrow> node \<Rightarrow> node outcome" where
  "render_recent_region payload root =
     renderMatchList (querySelector root ''data-challonge-recent'')
       (js_or (opt_prop (js_or (opt_prop payload ''tournament'') JNull) ''recent_matches'') (JArr [] []))
       ''No matches have been completed yet.'' root"

definition render_rounds_region :: "jsval \<Rightarrow> node \<Rightarrow> node outcome" where
  "render_rounds_region payload root =
     renderRounds (querySelector root ''data-challonge-rounds'')
       (js_or (opt_prop (js_or (opt_prop payload ''tournament'') JNull) ''rounds'') (JArr [] [])) root"

definition applyPayload :: "jsval \<Rightarrow> node \<Rightarrow> node outcome" where
  "applyPayload payload root =
     run_steps
       [updateStatus payload,
        render_current_region payload,
        render_upcoming_region payload,
        render_recent_region payload,
        render_rounds_region payload] root"

section \<open>The bracket change watcher\<close>

subsection \<open>\<^verbatim>\<open>parseInt(s, 10)\<close>\<close>

text \<open>
  Strings are sequences of UTF-8 bytes.  \<^verbatim>\<open>parseInt\<close> skips leading white space (the
  white space and line terminators of ECMAScript, in UTF-8), reads an optional sign and
  the longest run of decimal digits; \<open>None\<close> is \<^verbatim>\<open>NaN\<close>.
\<close>

definition js_whitespace :: "string list" where
  "js_whitespace =
    [[CHR 0x09], [CHR 0x0A], [CHR 0x0B], [CHR 0x0C], [CHR 0x0D], [CHR 0x20],
     [CHR 0xC2, CHR 0xA0], [CHR 0xE1, CHR 0x9A, CHR 0x80],
     [CHR 0xE2, CHR 0x80, CHR 0x80], [CHR 0xE2, CHR 0x80, CHR 0x81],
     [CHR 0xE2, CHR 0x80, CHR 0x82], [CHR 0xE2, CHR 0x80, CHR 0x83],
     [CHR 0xE2, CHR 0x80, CHR 0x84], [CHR 0xE2, CHR 0x80, CHR 0x85],
     [CHR 0xE2, CHR 0x80, CHR 0x86], [CHR 0xE2, CHR 0x80, CHR 0x87],
     [CHR 0xE2, CHR 0x80, CHR 0x88], [CHR 0xE2, CHR 0x80, CHR 0x89],
     [CHR 0xE2, CHR 0x80, CHR 0x8A], [CHR 0xE2, CHR 0x80, CHR 0xA8],
     [CHR 0xE2, CHR 0x80, CHR 0xA9], [CHR 0xE2, CHR 0x80, CHR 0xAF],
     [CHR 0xE2, CHR 0x81, CHR 0x9F], [CHR 0xE3, CHR 0x80, CHR 0x80],
     [CHR 0xEF, CHR 0xBB, CHR 0xBF]]"

lemma js_whitespace_nonempty: "w \<in> set js_whitespace \<Longrightarrow> w \<noteq> []"
  by (auto simp: js_whitespace_def)

function skip_space :: "string \<Rightarrow> string" where
  "skip_space s =
     (case find (\<lambda>w. take (length w) s = w) js_whitespace of
        None \<Rightarrow> s
      | Some w \<Rightarrow> skip_space (drop (length w) s))"
  by pat_completeness auto
termination
proof (relation "measure length")
  show "wf (measure length)" by simp
next
  fix s w :: string
  assume "find (\<lambda>w. take (length w) s = w) js_whitespace = Some w"
  then have "w \<in> set js_whitespace" and t: "take (length w) s = w"
    by (auto simp: find_Some_iff)
  then have "w \<noteq> []" by (simp add: js_whitespace_nonempty)
  with t have "s \<noteq> []" by auto
  with \<open>w \<noteq> []\<close> show "(drop (length w) s, s) \<in> measure length" by simp
qed

declare skip_space.simps [simp del]

definition is_digit :: "char \<Rightarrow> bool" where
  "is_digit c = (c \<in> set ''0123456789'')"

definition digit_value :: "char \<Rightarrow> int" where
  "digit_value c = int (of_char c) - 48"

definition parseInt10 :: "string \<Rightarrow> int option" where
  "parseInt10 s =
     (let t = skip_space s;
          negative = (t \<noteq> [] \<and> hd t = CHR ''-'');
          u = (if t \<noteq> [] \<and> (hd t = CHR ''-'' \<or> hd t = CHR ''+'') then tl t else t);
          ds = takeWhile is_digit u
      in if ds = [] then None
         else let n = foldl (\<lambda>a c. 10 * a + digit_value c) 0 ds
              in Some (if negative then - n else n))"

subsection \<open>Start-up (lines 2 to 22 and 51 of the watcher script)\<close>

text \<open>
  The page supplies the two elements looked up by id, and the rendered text
  (\<^verbatim>\<open>innerText\<close>) of the configuration element.  \<^verbatim>\<open>JSON.parse\<close> is the browser's: it is a
  parameter, \<open>None\<close> being its \<^verbatim>\<open>SyntaxError\<close>.
\<close>

record bracket_page =
  configEl :: "node option"
  configInnerText :: string
  bracket :: "node option"

datatype js_error = FetchRejected | JsonRejected | TypeError | SyntaxError

text \<open>
  How the script ends: it returned early, an exception escaped it, or it reached
  \<^verbatim>\<open>setInterval(pollBracket, intervalMs)\<close> with these values of \<^verbatim>\<open>apiUrl\<close>, \<^verbatim>\<open>intervalMs\<close>
  and \<^verbatim>\<open>lastSeenUpdate\<close>.  \<open>Returned\<close> carries what was written to the console.
\<close>

datatype startup =
    Returned "js_error list"
  | Uncaught js_error
  | Started jsval int jsval

text \<open>\<^verbatim>\<open>configEl.textContent || configEl.innerText || '{}'\<close>, the text handed to
  \<^verbatim>\<open>JSON.parse\<close>.\<close>

definition config_text :: "node \<Rightarrow> bracket_page \<Rightarrow> string" where
  "config_text c page =
     (if textContent c \<noteq> [] then textContent c
      else if configInnerText page \<noteq> [] then configInnerText page
      else ''{}'')"

definition start_watcher :: "(string \<Rightarrow> jsval option) \<Rightarrow> bracket_page \<Rightarrow> startup" where
  "start_watcher JSON_parse page =
     (case configEl page of
        None \<Rightarrow> Returned []
      | Some c \<Rightarrow>
     (case bracket page of
        None \<Rightarrow> Returned []
      | Some b \<Rightarrow>
     (case JSON_parse (config_text c page) of
        None \<Rightarrow> Returned [SyntaxError]
      | Some config \<Rightarrow>
          if nullish config then Uncaught TypeError
          else
            let apiUrl = get_prop config ''apiUrl'' in
            (case to_string (get_prop config ''refreshInterval'') of
               None \<Rightarrow> Uncaught TypeError
             | Some s \<Rightarrow>
                 let intervalMs = parseInt10 s in
                 if \<not> truthy apiUrl \<or> \<not> (case intervalMs of None \<Rightarrow> False | Some n \<Rightarrow> n > 0)
                 then Returned []
                 else Started apiUrl (the intervalMs)
                        (case getAttribute b ''data-updated'' of
                           None \<Rightarrow> JUndefined
                         | Some u \<Rightarrow> JStr u)))))"

subsection \<open>\<^verbatim>\<open>pollBracket\<close>\<close>

text \<open>
  What a request can come to: the \<^verbatim>\<open>fetch\<close> promise rejects, or it resolves with a
  response whose \<^verbatim>\<open>ok\<close> flag is given and whose body parses to a value or does not
  (\<^verbatim>\<open>response.json()\<close> rejects).
\<close>

datatype fetch_result = NetworkError | Response bool "jsval option"

record watcher =
  lastSeenUpdate :: jsval
  reloads :: nat
  warnings :: "js_error list"

text \<open>The body of the \<^verbatim>\<open>try\<close> block: \<open>Inl\<close> is an exception thrown inside it.\<close>

definition pollBracket_try :: "fetch_result \<Rightarrow> watcher \<Rightarrow> js_error + watcher" where
  "pollBracket_try r w =
     (case r of
        NetworkError \<Rightarrow> Inl FetchRejected
      | Response ok body \<Rightarrow>
          if \<not> ok then Inr w
          else
            (case body of
               None \<Rightarrow> Inl JsonRejected
             | Some data \<Rightarrow>
                 if \<not> truthy data \<or> \<not> truthy (get_prop data ''meta'') then Inr w
                 else
                   let updatedValue = get_prop (get_prop data ''meta'') ''updated_at'' in
                   if updatedValue = JNull \<or> updatedValue = JUndefined then Inr w
                   else
                     (case to_string updatedValue of
                        None \<Rightarrow> Inl TypeError
                      | Some normalized \<Rightarrow>
                          if \<not> truthy (lastSeenUpdate w)
                          then Inr (w\<lparr>lastSeenUpdate := JStr normalized\<rparr>)
                          else if JStr normalized \<noteq> lastSeenUpdate w
                          then Inr (w\<lparr>reloads := Suc (reloads w)\<rparr>)
                          else Inr w)))"

text \<open>
  The whole handler: the \<^verbatim>\<open>catch\<close> clause turns every exception of the block into a
  console warning.  \<open>Inl\<close> would be an exception leaving the handler.
\<close>

definition pollBracket :: "fetch_result \<Rightarrow> watcher \<Rightarrow> js_error + watcher" where
  "pollBracket r w =
     (case pollBracket_try r w of
        Inl err \<Rightarrow> Inr (w\<lparr>warnings := warnings w @ [err]\<rparr>)
      | Inr w' \<Rightarrow> Inr w')"

text \<open>
  The state in which the first poll finds the watcher, and the ticks of the interval
  timer.  Only a started watcher has a timer; each tick issues one request and runs the
  handler on what comes back.  \<open>run_watcher\<close> returns the number of requests issued and
  the final state.
\<close>

definition initial_watcher :: "jsval \<Rightarrow> watcher" where
  "initial_watcher seed = \<lparr>lastSeenUpdate = seed, reloads = 0, warnings = []\<rparr>"

definition scheduled_interval :: "startup \<Rightarrow> int option" where
  "scheduled_interval s = (case s of Started url ms seed \<Rightarrow> Some ms | _ \<Rightarrow> None)"

fun poll_all :: "fetch_result list \<Rightarrow> watcher \<Rightarrow> watcher" where
  "poll_all [] w = w"
| "poll_all (r # rs) w = (case pollBracket r w of Inl err \<Rightarrow> w | Inr w' \<Rightarrow> poll_all rs w')"

definition run_watcher :: "startup \<Rightarrow> fetch_result list \<Rightarrow> nat \<times> watcher option" where
  "run_watcher s rs =
     (case s of
        Started url ms seed \<Rightarrow> (length rs, Some (poll_all rs (initial_watcher seed)))
      | _ \<Rightarrow> (0, None))"

text \<open>A response that is OK and carries \<^verbatim>\<open>{meta: {updated_at: v}}\<close>.\<close>

definition meta_response :: "jsval \<Rightarrow> fetch_result" where
  "meta_response v = Response True (Some (JObj [(''meta'', JObj [(''updated_at'', v)])]))"

subsection \<open>Vocabulary of the watcher's properties\<close>

text \<open>
  The interval the script reads from a configuration object,
  \<^verbatim>\<open>parseInt(config.refreshInterval, 10)\<close>; \<open>None\<close> when the conversion throws or yields
  \<^verbatim>\<open>NaN\<close>.
\<close>

definition read_interval :: "jsval \<Rightarrow> int option" where
  "read_interval config =
     (case to_string (get_prop config ''refreshInterval'') of
        None \<Rightarrow> None
      | Some s \<Rightarrow> parseInt10 s)"

definition positive :: "int option \<Rightarrow> bool" where
  "positive m = (case m of None \<Rightarrow> False | Some n \<Rightarrow> n > 0)"

text \<open>
  A poll that carries no update marker: the request failed, the response is not OK or
  is not JSON, the body is falsy or has no (truthy) \<^verbatim>\<open>meta\<close>, or \<^verbatim>\<open>meta.updated_at\<close> is
  \<^verbatim>\<open>null\<close> or \<^verbatim>\<open>undefined\<close> (as it is on every \<^verbatim>\<open>meta\<close> that is not an object).
\<close>

definition no_update_signal :: "fetch_result \<Rightarrow> bool" where
  "no_update_signal r =
     (case r of
        NetworkError \<Rightarrow> True
      | Response ok body \<Rightarrow>
          \<not> ok \<or>
          (case body of
             None \<Rightarrow> True
           | Some data \<Rightarrow>
               \<not> truthy data \<or> \<not> truthy (get_prop data ''meta'') \<or>
               nullish (get_prop (get_prop data ''meta'') ''updated_at'')))"

text \<open>A page whose configuration block asks for an interval of zero, and a parser that
  knows this one text.\<close>

definition zero_interval_parse :: "string \<Rightarrow> jsval option" where
  \<open>zero_interval_parse s = (if s = ''{"apiUrl": "/api/bracket", "refreshInterval": "0"}''
     then Some (JObj [(''apiUrl'', JStr ''/api/bracket''), (''refreshInterval'', JStr ''0'')]) else None)\<close>

definition zero_interval_page :: bracket_page where
  \<open>zero_interval_page = \<lparr>configEl = Some (Element ''script'' [(''id'', ''publicBracketConfig'')]
                    [Text ''{"apiUrl": "/api/bracket", "refreshInterval": "0"}'']),
                configInnerText = [],
                bracket = Some (Element ''div'' [(''id'', ''tournamentBracket'')] [])\<rparr>\<close>

text \<open>A page whose configuration block gives the interval as the text \<^verbatim>\<open>15s\<close>, and a
  parser that knows this one text.\<close>

definition suffixed_interval_parse :: "string \<Rightarrow> jsval option" where
  \<open>suffixed_interval_parse s = (if s = ''{"apiUrl": "/api/bracket", "refreshInterval": "15s"}''
     then Some (JObj [(''apiUrl'', JStr ''/api/bracket''), (''refreshInterval'', JStr ''15s'')]) else None)\<close>

definition suffixed_interval_page :: bracket_page where
  \<open>suffixed_interval_page = \<lparr>configEl = Some (Element ''script'' [(''id'', ''publicBracketConfig'')]
                    [Text ''{"apiUrl": "/api/bracket", "refreshInterval": "15s"}'']),
                configInnerText = [],
                bracket = Some (Element ''div'' [(''id'', ''tournamentBracket'')] [])\<rparr>\<close>

text \<open>
  The values of \<^verbatim>\<open>refreshInterval\<close> that are not a positive number whatever their string
  form is read as: an absent or \<^verbatim>\<open>null\<close> value, a boolean, an object, and a number that is
  zero or negative.  Strings and arrays are left out: they are judged by the digits their
  string form begins with.
\<close>

definition not_positive_number :: "jsval \<Rightarrow> bool" where
  "not_positive_number v =
     (case v of
        JUndefined \<Rightarrow> True
      | JNull \<Rightarrow> True
      | JBool b \<Rightarrow> True
      | JNum n \<Rightarrow> n \<le> 0
      | JObj ps \<Rightarrow> True
      | _ \<Rightarrow> False)"

subsection \<open>Vocabulary of the renderer's properties\<close>

text \<open>A field of a match is absent when reading it gives \<^verbatim>\<open>undefined\<close> or \<^verbatim>\<open>null\<close>.\<close>

definition match_field_absent :: "jsval \<Rightarrow> string \<Rightarrow> bool" where
  "match_field_absent match k = nullish (opt_prop match k)"


definition banner_hidden :: "node \<Rightarrow> path \<Rightarrow> bool" where
  "banner_hidden doc p =
     (case node_at doc p of
        None \<Rightarrow> False
      | Some e \<Rightarrow> textContent e = [] \<and> getAttribute e ''hidden'' \<noteq> None)"

text \<open>
  A region is seeded when its section, if the page has one, has at least one element
  child (the heading of the static scaffold), which every render pass keeps.
\<close>

definition region_seeded :: "node \<Rightarrow> string \<Rightarrow> bool" where
  "region_seeded doc k =
     (case querySelector doc k of
        None \<Rightarrow> True
      | Some p \<Rightarrow> (case node_at doc p of None \<Rightarrow> False | Some s \<Rightarrow> children s \<noteq> []))"

text \<open>
  What the three region renderers have in common: clear the section, then append the
  new content, or throw after clearing when building the content threw.
\<close>

definition rebuild :: "path option \<Rightarrow> node option \<Rightarrow> node \<Rightarrow> node outcome" where
  "rebuild section content doc =
     (case section of
        None \<Rightarrow> Done doc
      | Some p \<Rightarrow>
          (case content of
             None \<Rightarrow> Throw (removeContent (Some p) doc)
           | Some n \<Rightarrow> Done (append_at p n (removeContent (Some p) doc))))"


text \<open>A page with a seeded and an unseeded region, and a payload with one upcoming
  match.\<close>

definition two_region_page :: node where
  "two_region_page =
     Element ''main'' [(''data-challonge-root'', '''')]
       [Element ''section'' [(''data-challonge-upcoming'', '''')]
          [Text ''  '', Element ''h3'' [] [Text ''Up next''], Text ''  ''],
        Element ''section'' [(''data-challonge-recent'', '''')] []]"

definition one_match_payload :: jsval where
  "one_match_payload =
     JObj [(''tournament'',
            JObj [(''upcoming_matches'',
                   JArr [JObj [(''id'', JNum 12), (''player1_name'', JStr ''Ada''),
                               (''player2_name'', JStr ''Grace'')]] [])])]"

text \<open>A complete scaffold, each region with its heading, and the payload of the
  specification's example with a current match, one upcoming match and one round.\<close>

definition full_page :: node where
  "full_page =
     Element ''main'' [(''data-challonge-root'', '''')]
       [Element ''section'' [(''class'', ''card''), (''data-challonge-status'', '''')]
          [Element ''h2'' [(''data-challonge-name'', '''')] [Text ''Tournament''],
           Text ''  '',
           Element ''p'' [(''data-challonge-state'', '''')] [],
           Element ''dl'' []
             [Element ''dd'' [(''data-challonge-participants'', '''')] [],
              Element ''dd'' [(''data-challonge-matches'', '''')] [],
              Element ''dd'' [(''data-challonge-updated'', '''')] []],
           Element ''a'' [(''data-challonge-link'', ''''), (''href'', ''#''), (''hidden'', '''')]
             [Text ''Open bracket''],
           Element ''p'' [(''class'', ''error''), (''data-challonge-error'', ''''), (''hidden'', '''')] []],
        Element ''div'' [(''class'', ''grid'')]
          [Element ''section'' [(''data-challonge-current'', '''')]
             [Text ''  '', Element ''h3'' [] [Text ''Live now'']],
           Element ''section'' [(''data-challonge-upcoming'', '''')]
             [Element ''h3'' [] [Text ''Up next''], Text ''  ''],
           Element ''section'' [(''data-challonge-recent'', '''')]
             [Element ''h3'' [] [Text ''Results'']]],
        Element ''section'' [(''data-challonge-rounds'', '''')]
          [Element ''h3'' [] [Text ''Bracket'']]]"

definition full_payload :: jsval where
  "full_payload =
     JObj [(''configured'', JBool True), (''error'', JNull),
           (''fetched_at'', JStr ''2024-01-01T00:00:00Z''),
           (''tournament'',
            JObj [(''name'', JStr ''Cup''), (''state'', JStr ''underway''),
                  (''total_participants'', JNum 8), (''total_matches'', JNum 7),
                  (''url'', JStr ''https://x''),
                  (''current_match'',
                   JObj [(''id'', JNum 3), (''round_label'', JStr ''Semifinal''),
                         (''player1_name'', JStr ''Ada''), (''player2_name'', JStr ''Grace''),
                         (''winner_slot'', JNull), (''score_text'', JStr ''1-0''),
                         (''status_text'', JStr ''In Progress'')]),
                  (''upcoming_matches'',
                   JArr [JObj [(''id'', JNum 4), (''player1_name'', JStr ''Edsger'')]] []),
                  (''recent_matches'', JArr [] []),
                  (''rounds'',
                   JArr [JObj [(''round'', JNum 1), (''round_label'', JNull),
                               (''matches'',
                                JArr [JObj [(''id'', JNum 1), (''winner_slot'', JStr ''player2''),
                                            (''player1_name'', JStr ''Ada''),
                                            (''player2_name'', JStr ''Alan'')]] [])]] [])])]"



section \<open>The status poller (\<^verbatim>\<open>static/challonge_live.js\<close>, lines 276 to 311)\<close>

text \<open>
  The state of the page as far as the poller is concerned: the subtree of the root
  element, the variable \<^verbatim>\<open>timer\<close> of the start-up closure, the timeouts of this script that
  the browser holds (identifier and delay), the identifier the browser hands out next
  (identifiers are positive), and the number of requests whose promise chain has not run
  yet.  \<open>trace\<close> records, in order, what the script did: it is how the properties count
  calls.
\<close>

datatype event =
    Fetch
  | ApplyPayload jsval
  | ConsoleError
  | SetTimeout nat nat
  | ClearTimeout nat

record poller =
  root :: node
  timer :: "nat option"
  pending :: "(nat \<times> nat) list"
  next_id :: nat
  in_flight :: nat
  trace :: "event list"

definition REFRESH_MS :: nat where
  "REFRESH_MS = 15000"

text \<open>The browser's \<^verbatim>\<open>setTimeout\<close> and \<^verbatim>\<open>clearTimeout\<close>.\<close>

definition setTimeout :: "nat \<Rightarrow> poller \<Rightarrow> nat \<times> poller" where
  "setTimeout delay st =
     (next_id st,
      st\<lparr>pending := pending st @ [(next_id st, delay)],
         next_id := Suc (next_id st),
         trace := trace st @ [SetTimeout (next_id st) delay]\<rparr>)"

definition clearTimeout :: "nat \<Rightarrow> poller \<Rightarrow> poller" where
  "clearTimeout i st =
     st\<lparr>pending := filter (\<lambda>t. fst t \<noteq> i) (pending st),
        trace := trace st @ [ClearTimeout i]\<rparr>"

text \<open>\<^verbatim>\<open>scheduleNext\<close> (lines 303 to 308).  \<^verbatim>\<open>if (timer)\<close> holds for a stored identifier
  other than 0.\<close>

definition scheduleNext :: "poller \<Rightarrow> poller" where
  "scheduleNext st =
     (let st1 = (case timer st of
                   None \<Rightarrow> st
                 | Some t \<Rightarrow> if t \<noteq> 0 then clearTimeout t st else st);
          (i, st2) = setTimeout REFRESH_MS st1
      in st2\<lparr>timer := Some i\<rparr>)"

text \<open>\<^verbatim>\<open>fetchAndRender\<close> issues the request; its handlers run when the request
  completes.\<close>

definition fetchAndRender :: "poller \<Rightarrow> poller" where
  "fetchAndRender st = st\<lparr>in_flight := Suc (in_flight st), trace := trace st @ [Fetch]\<rparr>"

definition error_payload :: jsval where
  "error_payload =
     JObj [(''configured'', JBool True),
           (''error'', JStr ''Unable to load tournament data.''),
           (''tournament'', JNull)]"

text \<open>
  A call of \<^verbatim>\<open>applyPayload(root, payload)\<close> from a handler, followed by \<open>next\<close> when it
  returns and by \<open>handler\<close> when it throws.
\<close>

definition call_applyPayload ::
    "jsval \<Rightarrow> (poller \<Rightarrow> poller) \<Rightarrow> (poller \<Rightarrow> poller) \<Rightarrow> poller \<Rightarrow> poller" where
  "call_applyPayload payload next handler st =
     (case applyPayload payload (root st) of
        Done d \<Rightarrow> next (st\<lparr>root := d, trace := trace st @ [ApplyPayload payload]\<rparr>)
      | Throw d \<Rightarrow> handler (st\<lparr>root := d, trace := trace st @ [ApplyPayload payload]\<rparr>))"

text \<open>
  The \<^verbatim>\<open>catch\<close> handler (lines 287 to 295).  An exception in it would leave the chain
  rejected, with nothing scheduled.
\<close>

definition on_rejected :: "poller \<Rightarrow> poller" where
  "on_rejected st =
     call_applyPayload error_payload scheduleNext (\<lambda>s. s)
       (st\<lparr>trace := trace st @ [ConsoleError]\<rparr>)"

text \<open>The payload rendered by the second \<^verbatim>\<open>then\<close> handler (lines 279 to 284).\<close>

definition received_payload :: "bool \<Rightarrow> jsval \<Rightarrow> jsval" where
  "received_payload ok data =
     (if \<not> ok
      then
        (let data1 = js_or data (JObj [])
         in assign_prop data1 ''error''
              (js_or (get_prop data1 ''error'') (JStr ''Unable to load tournament data.'')))
      else data)"

text \<open>
  The promise chain, run when the request completes.  A rejected \<^verbatim>\<open>fetch\<close> or
  \<^verbatim>\<open>response.json()\<close> skips the \<^verbatim>\<open>then\<close> handlers; an exception thrown by the second \<^verbatim>\<open>then\<close>
  handler is caught by the same \<^verbatim>\<open>catch\<close>.
\<close>

definition fetch_completes :: "fetch_result \<Rightarrow> poller \<Rightarrow> poller" where
  "fetch_completes r st =
     (let st0 = st\<lparr>in_flight := in_flight st - 1\<rparr> in
      case r of
        NetworkError \<Rightarrow> on_rejected st0
      | Response ok body \<Rightarrow>
          (case body of
             None \<Rightarrow> on_rejected st0
           | Some data \<Rightarrow>
               call_applyPayload (received_payload ok data) scheduleNext on_rejected st0))"

text \<open>A pending timeout fires: the browser drops it and runs the callback of line 307.\<close>

definition timer_fires :: "nat \<Rightarrow> poller \<Rightarrow> poller" where
  "timer_fires i st = fetchAndRender (st\<lparr>pending := filter (\<lambda>t. fst t \<noteq> i) (pending st)\<rparr>)"

text \<open>The \<^verbatim>\<open>DOMContentLoaded\<close> handler, for a page whose root element is \<open>r\<close>; without a
  root element the handler returns and there is no poller.\<close>

definition start_poller :: "node \<Rightarrow> poller" where
  "start_poller r =
     fetchAndRender
       \<lparr>root = r, timer = None, pending = [], next_id = 1, in_flight = 0, trace = []\<rparr>"

text \<open>The life of the poller: it starts, and then pending timeouts fire and outstanding
  requests complete, in any order and with any result.\<close>

inductive reachable :: "poller \<Rightarrow> bool" where
  start: "reachable (start_poller r)"
| fire: "reachable st \<Longrightarrow> i \<in> fst ` set (pending st) \<Longrightarrow> reachable (timer_fires i st)"
| complete: "reachable st \<Longrightarrow> in_flight st > 0 \<Longrightarrow> reachable (fetch_completes r st)"

text \<open>What a step added to the trace; the payloads passed to \<^verbatim>\<open>applyPayload\<close> and the
  delays passed to \<^verbatim>\<open>setTimeout\<close> in a stretch of the trace.\<close>

definition new_events :: "poller \<Rightarrow> poller \<Rightarrow> event list" where
  "new_events st st' = drop (length (trace st)) (trace st')"

fun rendered_payloads :: "event list \<Rightarrow> jsval list" where
  "rendered_payloads [] = []"
| "rendered_payloads (ApplyPayload p # es) = p # rendered_payloads es"
| "rendered_payloads (e # es) = rendered_payloads es"

fun scheduled_delays :: "event list \<Rightarrow> nat list" where
  "scheduled_delays [] = []"
| "scheduled_delays (SetTimeout i d # es) = d # scheduled_delays es"
| "scheduled_delays (e # es) = scheduled_delays es"

text \<open>A step that returns on every document.\<close>

definition never_throws :: "('a \<Rightarrow> 'a outcome) \<Rightarrow> bool" where
  "never_throws f = (\<forall>d. \<exists>d'. f d = Done d')"

subsection \<open>Vocabulary of the poller's properties\<close>

text \<open>Every pending timeout is the one stored in \<^verbatim>\<open>timer\<close>, and identifiers are
  positive.\<close>

definition timers_tracked :: "poller \<Rightarrow> bool" where
  "timers_tracked st =
     (list_all (\<lambda>t. timer st = Some (fst t) \<and> fst t \<noteq> 0) (pending st) \<and> next_id st \<noteq> 0)"

text \<open>The payload a completed request leads to: the body received (with the error
  filled in on a response that is not OK), or the synthesized one when the request or
  the parsing failed.\<close>

definition payload_to_render :: "fetch_result \<Rightarrow> jsval" where
  "payload_to_render r =
     (case r of
        NetworkError \<Rightarrow> error_payload
      | Response ok body \<Rightarrow>
          (case body of None \<Rightarrow> error_payload | Some data \<Rightarrow> received_payload ok data))"

text \<open>The request delivered a body and rendering it throws.\<close>

definition first_render_throws :: "fetch_result \<Rightarrow> poller \<Rightarrow> bool" where
  "first_render_throws r st =
     (case r of
        NetworkError \<Rightarrow> False
      | Response ok body \<Rightarrow>
          (case body of
             None \<Rightarrow> False
           | Some data \<Rightarrow>
               (case applyPayload (received_payload ok data) (root st) of
                  Done d \<Rightarrow> False
                | Throw d \<Rightarrow> True)))"

definition is_object :: "jsval \<Rightarrow> bool" where
  "is_object v = (case v of JObj ps \<Rightarrow> True | JArr xs ps \<Rightarrow> True | _ \<Rightarrow> False)"

text \<open>
  The shape of a payload in the data model: a scalar is anything but an array or an
  object; a match has scalar fields; lists of matches and of rounds are arrays (or
  absent); a round and a tournament are objects; \<^verbatim>\<open>state\<close> is a string when present.
\<close>

definition is_scalar :: "jsval \<Rightarrow> bool" where
  "is_scalar v = (case v of JArr xs ps \<Rightarrow> False | JObj ps \<Rightarrow> False | _ \<Rightarrow> True)"

definition text_or_absent :: "jsval \<Rightarrow> bool" where
  "text_or_absent v = (case v of JStr s \<Rightarrow> True | _ \<Rightarrow> nullish v)"

definition well_shaped_match :: "jsval \<Rightarrow> bool" where
  "well_shaped_match m =
     list_all (\<lambda>k. is_scalar (get_prop m k))
       [''id'', ''round_label'', ''player1_name'', ''player2_name'', ''score_text'', ''status_text'']"

definition well_shaped_matches :: "jsval \<Rightarrow> bool" where
  "well_shaped_matches v =
     (case v of
        JArr ms ps \<Rightarrow> ps = [] \<and> list_all well_shaped_match ms
      | _ \<Rightarrow> nullish v)"

definition well_shaped_round :: "jsval \<Rightarrow> bool" where
  "well_shaped_round r =
     (case r of
        JObj ps \<Rightarrow>
          is_scalar (own_prop ps ''round'') \<and> is_scalar (own_prop ps ''round_label'') \<and>
          well_shaped_matches (own_prop ps ''matches'')
      | _ \<Rightarrow> False)"

definition well_shaped_rounds :: "jsval \<Rightarrow> bool" where
  "well_shaped_rounds v =
     (case v of
        JArr rs ps \<Rightarrow> ps = [] \<and> list_all well_shaped_round rs
      | _ \<Rightarrow> nullish v)"

definition well_shaped_tournament :: "jsval \<Rightarrow> bool" where
  "well_shaped_tournament t =
     (case t of
        JObj ps \<Rightarrow>
          is_scalar (own_prop ps ''name'') \<and> text_or_absent (own_prop ps ''state'') \<and>
          is_scalar (own_prop ps ''total_participants'') \<and> is_scalar (own_prop ps ''total_matches'') \<and>
          is_scalar (own_prop ps ''url'') \<and>
          (nullish (own_prop ps ''current_match'') \<or>
             (is_object (own_prop ps ''current_match'') \<and> well_shaped_match (own_prop ps ''current_match''))) \<and>
          well_shaped_matches (own_prop ps ''upcoming_matches'') \<and>
          well_shaped_matches (own_prop ps ''recent_matches'') \<and>
          well_shaped_rounds (own_prop ps ''rounds'')
      | _ \<Rightarrow> nullish t)"

definition well_shaped_payload :: "jsval \<Rightarrow> bool" where
  "well_shaped_payload p =
     (case p of
        JObj ps \<Rightarrow>
          is_scalar (own_prop ps ''configured'') \<and> is_scalar (own_prop ps ''error'') \<and>
          is_scalar (own_prop ps ''fetched_at'') \<and> well_shaped_tournament (own_prop ps ''tournament'')
      | _ \<Rightarrow> nullish p)"

text \<open>The request failed, or it delivered a body of the documented shape.\<close>

definition well_shaped_result :: "fetch_result \<Rightarrow> bool" where
  "well_shaped_result r =
     (case r of
        NetworkError \<Rightarrow> True
      | Response ok body \<Rightarrow>
          (case body of None \<Rightarrow> True | Some data \<Rightarrow> well_shaped_payload data))"

text \<open>A page with a status banner and a rounds region, and the poller just started on
  it.\<close>

definition small_page :: node where
  "small_page =
     Element ''main'' [(''data-challonge-root'', '''')]
       [Element ''section'' [(''data-challonge-status'', '''')]
          [Element ''h2'' [(''data-challonge-name'', '''')] [],
           Element ''p'' [(''data-challonge-error'', ''''), (''hidden'', '''')] []],
        Element ''section'' [(''data-challonge-rounds'', '''')]
          [Element ''h3'' [] [Text ''Bracket'']]]"

definition null_round_payload :: jsval where
  "null_round_payload = JObj [(''tournament'', JObj [(''rounds'', JArr [JNull] [])])]"

section \<open>Properties of the bracket change watcher\<close>

lemma nullish_iff: "nullish v \<longleftrightarrow> v = JNull \<or> v = JUndefined"
  by (cases v) auto

text \<open>
  C4.  A poll whose request fails, whose response is not OK or not JSON, whose body has
  no \<^verbatim>\<open>meta\<close>, or whose \<^verbatim>\<open>meta.updated_at\<close> is \<^verbatim>\<open>null\<close> or \<^verbatim>\<open>undefined\<close> leaves the baseline
  as it was and triggers no reload, and the handler returns normally: no exception leaves
  it.
\<close>

theorem pollBracket_no_signal:
  assumes "no_update_signal r"
  shows "\<exists>w'. pollBracket r w = Inr w' \<and> lastSeenUpdate w' = lastSeenUpdate w \<and>
           reloads w' = reloads w"
  using assms
  by (auto simp: no_update_signal_def pollBracket_def pollBracket_try_def nullish_iff Let_def
      split: fetch_result.splits option.splits)

theorem pollBracket_no_signal_witness:
  "no_update_signal (Response True (Some (JObj [(''meta'', JObj [(''updated_at'', JNull)])]))) \<and>
   no_update_signal (Response True (Some (JObj [(''bracket'', JArr [] [])]))) \<and>
   no_update_signal (Response False None) \<and> no_update_signal NetworkError \<and>
   (\<exists>w'. pollBracket (Response True (Some (JObj [(''meta'', JObj [(''updated_at'', JNull)])])))
            \<lparr>lastSeenUpdate = JStr ''a'', reloads = 0, warnings = []\<rparr> = Inr w' \<and>
         lastSeenUpdate w' = JStr ''a'' \<and> reloads w' = 0)"
proof -
  have h: "no_update_signal (Response True (Some (JObj [(''meta'', JObj [(''updated_at'', JNull)])])))"
    by (simp add: no_update_signal_def own_prop_def)
  show ?thesis
    using h pollBracket_no_signal [OF h, of "\<lparr>lastSeenUpdate = JStr ''a'', reloads = 0, warnings = []\<rparr>"]
    by (simp add: no_update_signal_def own_prop_def)
qed

text \<open>
  C3 as stated fails when the first marker is the empty string: it is stored, the
  watcher still counts as having no baseline, and the next, different marker replaces it
  without a reload.
\<close>

theorem watcher_empty_baseline_counterexample:
  "pollBracket (meta_response (JStr '''')) (initial_watcher JUndefined)
     = Inr \<lparr>lastSeenUpdate = JStr '''', reloads = 0, warnings = []\<rparr> \<and>
   to_string (JStr ''b'') = Some ''b'' \<and> ''b'' \<noteq> '''' \<and>
   pollBracket (meta_response (JStr ''b'')) \<lparr>lastSeenUpdate = JStr '''', reloads = 0, warnings = []\<rparr>
     = Inr \<lparr>lastSeenUpdate = JStr ''b'', reloads = 0, warnings = []\<rparr>"
  by (simp add: pollBracket_def pollBracket_try_def meta_response_def initial_watcher_def own_prop_def)

text \<open>
  C3, as amended.  On a response that carries a non-null \<^verbatim>\<open>updated_at\<close> with string form
  \<open>s\<close>: a watcher that holds no baseline (the stored value is falsy) stores \<open>s\<close> and does
  not reload; a watcher that holds a non-empty baseline \<open>b\<close> keeps it, does nothing when
  \<open>s = b\<close> and reloads when \<open>s \<noteq> b\<close>.
\<close>

theorem watcher_baseline_then_compare:
  assumes "truthy data" and "truthy (get_prop data ''meta'')"
    and "get_prop (get_prop data ''meta'') ''updated_at'' = v" and "\<not> nullish v"
    and "to_string v = Some s"
  shows "(\<not> truthy (lastSeenUpdate w) \<longrightarrow>
            pollBracket (Response True (Some data)) w = Inr (w\<lparr>lastSeenUpdate := JStr s\<rparr>)) \<and>
         (\<forall>b. lastSeenUpdate w = JStr b \<and> b \<noteq> [] \<longrightarrow>
            pollBracket (Response True (Some data)) w =
              Inr (if s = b then w else w\<lparr>reloads := Suc (reloads w)\<rparr>))"
  using assms
  by (auto simp: pollBracket_def pollBracket_try_def nullish_iff Let_def)

theorem watcher_baseline_then_compare_witness:
  "truthy (JObj [(''meta'', JObj [(''updated_at'', JStr ''b'')])]) \<and>
   \<not> nullish (JStr ''b'') \<and> to_string (JStr ''b'') = Some ''b'' \<and>
   \<not> truthy (lastSeenUpdate (initial_watcher JUndefined)) \<and>
   poll_all [meta_response (JStr ''a''), meta_response (JStr ''a'')] (initial_watcher JUndefined)
     = \<lparr>lastSeenUpdate = JStr ''a'', reloads = 0, warnings = []\<rparr> \<and>
   pollBracket (meta_response (JStr ''b'')) \<lparr>lastSeenUpdate = JStr ''a'', reloads = 0, warnings = []\<rparr>
     = Inr \<lparr>lastSeenUpdate = JStr ''a'', reloads = 1, warnings = []\<rparr> \<and>
   pollBracket (meta_response (JStr ''b'')) (initial_watcher JUndefined)
     = Inr \<lparr>lastSeenUpdate = JStr ''b'', reloads = 0, warnings = []\<rparr>"
proof -
  let ?d = "JObj [(''meta'', JObj [(''updated_at'', JStr ''b'')])]"
  have a: "truthy ?d" "truthy (get_prop ?d ''meta'')"
    "get_prop (get_prop ?d ''meta'') ''updated_at'' = JStr ''b''" "\<not> nullish (JStr ''b'')"
    "to_string (JStr ''b'') = Some ''b''"
    by (simp_all add: own_prop_def)
  have p12: "poll_all [meta_response (JStr ''a''), meta_response (JStr ''a'')] (initial_watcher JUndefined)
     = \<lparr>lastSeenUpdate = JStr ''a'', reloads = 0, warnings = []\<rparr>"
    by (simp add: pollBracket_def pollBracket_try_def meta_response_def initial_watcher_def own_prop_def)
  show ?thesis
    using a p12
      watcher_baseline_then_compare [OF a, of "\<lparr>lastSeenUpdate = JStr ''a'', reloads = 0, warnings = []\<rparr>"]
      watcher_baseline_then_compare [OF a, of "initial_watcher JUndefined"]
    by (simp add: meta_response_def initial_watcher_def)
qed

lemma start_watcher_Started:
  assumes "start_watcher JSON_parse page = Started url ms seed"
  shows "\<exists>c config. configEl page = Some c \<and> JSON_parse (config_text c page) = Some config \<and>
           truthy (get_prop config ''apiUrl'') \<and> read_interval config = Some ms \<and> ms > 0"
proof -
  from assms obtain c where c: "configEl page = Some c"
    by (cases "configEl page") (simp_all add: start_watcher_def)
  from assms c obtain b where b: "bracket page = Some b"
    by (cases "bracket page") (simp_all add: start_watcher_def)
  from assms c b obtain config where p: "JSON_parse (config_text c page) = Some config"
    by (cases "JSON_parse (config_text c page)") (simp_all add: start_watcher_def)
  from assms c b p have n: "\<not> nullish config"
    by (auto simp: start_watcher_def split: if_splits)
  from assms c b p n obtain s where s: "to_string (get_prop config ''refreshInterval'') = Some s"
    by (cases "to_string (get_prop config ''refreshInterval'')")
      (simp_all add: start_watcher_def)
  from assms c b p n s have "truthy (get_prop config ''apiUrl'')"
    and "parseInt10 s = Some ms" and "ms > 0"
    by (auto simp: start_watcher_def Let_def split: if_splits option.splits)
  with c p s show ?thesis by (simp add: read_interval_def)
qed

subsection \<open>The start-up guard\<close>

text \<open>
  \<^verbatim>\<open>parseInt\<close> of a string form that begins with a minus sign is never positive, and the
  string forms of \<^verbatim>\<open>undefined\<close>, \<^verbatim>\<open>null\<close>, booleans and objects have no leading digits.
\<close>

lemma js_whitespace_hd: "w \<in> set js_whitespace \<Longrightarrow> hd w \<notin> set ''-0123456789''"
  unfolding js_whitespace_def by (simp, elim disjE) simp_all

lemma skip_space_plain:
  assumes "s \<noteq> []" and "hd s \<in> set ''-0123456789''"
  shows "skip_space s = s"
proof -
  have "take (length w) s \<noteq> w" if w: "w \<in> set js_whitespace" for w
  proof
    assume t: "take (length w) s = w"
    from w have "w \<noteq> []" by (rule js_whitespace_nonempty)
    with t assms(1) have "hd w = hd s" by (cases w; cases s) auto
    with js_whitespace_hd [OF w] assms(2) show False by simp
  qed
  then have "find (\<lambda>w. take (length w) s = w) js_whitespace = None"
    by (simp add: find_None_iff)
  then show ?thesis by (subst skip_space.simps) simp
qed

lemma digits_nonempty: "digits n \<noteq> []"
  by (subst digits.simps) simp

lemma digits_are_digits: "c \<in> set (digits n) \<Longrightarrow> is_digit c"
proof (induction n rule: digits.induct)
  case (1 n)
  have nth: "is_digit (''0123456789'' ! k)" if "k < 10" for k
  proof -
    from that have "k \<in> {0,1,2,3,4,5,6,7,8,9}" by auto
    then show ?thesis by (auto simp: is_digit_def)
  qed
  show ?case
  proof (cases "n < 10")
    case True
    with 1(2) have "c = ''0123456789'' ! n" by (subst (asm) digits.simps) simp
    with nth [OF True] show ?thesis by simp
  next
    case False
    with 1(2) have "c \<in> set (digits (n div 10)) \<or> c = ''0123456789'' ! (n mod 10)"
      by (subst (asm) digits.simps) auto
    with 1(1)[OF False] nth [of "n mod 10"] show ?thesis by auto
  qed
qed

lemma digit_value_nonneg: "is_digit c \<Longrightarrow> 0 \<le> digit_value c"
  by (auto simp: is_digit_def digit_value_def)

lemma foldl_digits_nonneg:
  "\<forall>c\<in>set ds. is_digit c \<Longrightarrow> 0 \<le> a \<Longrightarrow> 0 \<le> foldl (\<lambda>a c. 10 * a + digit_value c) a ds"
proof (induction ds arbitrary: a)
  case Nil then show ?case by simp
next
  case (Cons d ds)
  from Cons.prems have "0 \<le> 10 * a + digit_value d" using digit_value_nonneg [of d] by simp
  with Cons show ?case by simp
qed

lemma parseInt10_minus:
  "case parseInt10 (CHR ''-'' # s) of None \<Rightarrow> True | Some n \<Rightarrow> n \<le> 0"
proof -
  have sk: "skip_space (CHR ''-'' # s) = CHR ''-'' # s"
    by (rule skip_space_plain) simp_all
  have "0 \<le> foldl (\<lambda>a c. 10 * a + digit_value c) 0 (takeWhile is_digit s)"
    by (rule foldl_digits_nonneg) (auto dest: set_takeWhileD)
  then show ?thesis
    by (simp add: parseInt10_def sk Let_def)
qed

lemma not_positive_number_interval:
  assumes "not_positive_number (get_prop config ''refreshInterval'')"
  shows "\<not> positive (read_interval config)"
proof (cases "get_prop config ''refreshInterval''")
  case JUndefined
  have "parseInt10 ''undefined'' = None" by code_simp
  with JUndefined show ?thesis by (simp add: read_interval_def positive_def)
next
  case JNull
  have "parseInt10 ''null'' = None" by code_simp
  with JNull show ?thesis by (simp add: read_interval_def positive_def)
next
  case (JBool b)
  have "parseInt10 ''true'' = None" "parseInt10 ''false'' = None" by code_simp+
  with JBool show ?thesis by (simp add: read_interval_def positive_def)
next
  case (JNum n)
  with assms have n: "n \<le> 0" by (simp add: not_positive_number_def)
  show ?thesis
  proof (cases "n = 0")
    case True
    have "parseInt10 (show_int 0) = Some 0" by code_simp
    with JNum True show ?thesis by (simp add: read_interval_def positive_def)
  next
    case False
    with n have "show_int n = CHR ''-'' # digits (nat (- n))" by (simp add: show_int_def)
    with parseInt10_minus [of "digits (nat (- n))"] JNum show ?thesis
      by (auto simp: read_interval_def positive_def split: option.splits)
  qed
next
  case (JStr s)
  with assms show ?thesis by (simp add: not_positive_number_def)
next
  case (JArr xs ps)
  with assms show ?thesis by (simp add: not_positive_number_def)
next
  case (JObj ps)
  have "parseInt10 ''[object Object]'' = None" by code_simp
  with JObj show ?thesis by (simp add: read_interval_def positive_def)
qed

text \<open>
  C9 as stated fails for a refresh interval that is not a number but whose string form
  begins with one: with \<^verbatim>\<open>"refreshInterval": "15s"\<close> the script reaches
  \<^verbatim>\<open>setInterval(pollBracket, 15)\<close> and every tick issues a request.
\<close>

theorem watcher_guard_counterexample:
  "start_watcher suffixed_interval_parse suffixed_interval_page
     = Started (JStr ''/api/bracket'') 15 JUndefined \<and>
   scheduled_interval (start_watcher suffixed_interval_parse suffixed_interval_page) = Some 15 \<and>
   fst (run_watcher (start_watcher suffixed_interval_parse suffixed_interval_page)
          [NetworkError, NetworkError]) = 2"
proof -
  have p: "parseInt10 ''15s'' = Some 15" by code_simp
  have s: "start_watcher suffixed_interval_parse suffixed_interval_page
     = Started (JStr ''/api/bracket'') 15 JUndefined"
    by (simp add: start_watcher_def suffixed_interval_page_def suffixed_interval_parse_def
        config_text_def own_prop_def p getAttribute_def)
  show ?thesis by (simp add: s scheduled_interval_def run_watcher_def)
qed

text \<open>
  C9, as amended.  The script never reaches \<^verbatim>\<open>setInterval\<close>, so that no timer is scheduled
  and, whatever the network would answer, no request is issued, if the configuration
  element is missing, its text does not parse, \<^verbatim>\<open>apiUrl\<close> is missing (falsy), or
  \<^verbatim>\<open>parseInt(refreshInterval, 10)\<close> is not greater than zero; the latter holds in particular
  when \<^verbatim>\<open>refreshInterval\<close> is absent, \<^verbatim>\<open>null\<close>, a boolean, an object, or a number that is not
  positive.  Conversely a watcher that starts has read, from a configuration that parsed,
  a truthy \<^verbatim>\<open>apiUrl\<close> and an interval \<^verbatim>\<open>parseInt(refreshInterval, 10) > 0\<close>, which is the
  interval of its timer.  The decision is taken once, by the start-up code: what the polls
  receive has no part in it, a watcher that did not start issues no request and one that
  started issues one request on every tick.
\<close>

theorem watcher_guard:
  "((configEl page = None \<or>
      (\<exists>c. configEl page = Some c \<and>
         (case JSON_parse (config_text c page) of
            None \<Rightarrow> True
          | Some config \<Rightarrow>
              \<not> truthy (get_prop config ''apiUrl'') \<or> \<not> positive (read_interval config) \<or>
              not_positive_number (get_prop config ''refreshInterval''))))
      \<longrightarrow> scheduled_interval (start_watcher JSON_parse page) = None \<and>
          fst (run_watcher (start_watcher JSON_parse page) rs) = 0) \<and>
   (start_watcher JSON_parse page = Started url ms seed
      \<longrightarrow> ms > 0 \<and>
          (\<exists>c config. configEl page = Some c \<and> JSON_parse (config_text c page) = Some config \<and>
             url = get_prop config ''apiUrl'' \<and> truthy url \<and> read_interval config = Some ms) \<and>
          scheduled_interval (start_watcher JSON_parse page) = Some ms \<and>
          fst (run_watcher (start_watcher JSON_parse page) rs) = length rs)"
proof -
  have a: "scheduled_interval (start_watcher JSON_parse page) = None \<and>
          fst (run_watcher (start_watcher JSON_parse page) rs) = 0"
    if h: "configEl page = None \<or>
      (\<exists>c. configEl page = Some c \<and>
         (case JSON_parse (config_text c page) of
            None \<Rightarrow> True
          | Some config \<Rightarrow>
              \<not> truthy (get_prop config ''apiUrl'') \<or> \<not> positive (read_interval config) \<or>
              not_positive_number (get_prop config ''refreshInterval'')))"
  proof (cases "start_watcher JSON_parse page")
    case (Started url ms seed)
    from start_watcher_Started [OF this] obtain c config where
      c: "configEl page = Some c" and p: "JSON_parse (config_text c page) = Some config"
      and u: "truthy (get_prop config ''apiUrl'')" and r: "read_interval config = Some ms"
      and ms: "ms > 0" by blast
    from r ms have pos: "positive (read_interval config)" by (simp add: positive_def)
    with not_positive_number_interval [of config]
    have "\<not> not_positive_number (get_prop config ''refreshInterval'')" by blast
    with h c p u pos have False by auto
    then show ?thesis ..
  qed (simp_all add: scheduled_interval_def run_watcher_def)
  have b: "ms > 0 \<and>
          (\<exists>c config. configEl page = Some c \<and> JSON_parse (config_text c page) = Some config \<and>
             url = get_prop config ''apiUrl'' \<and> truthy url \<and> read_interval config = Some ms) \<and>
          scheduled_interval (start_watcher JSON_parse page) = Some ms \<and>
          fst (run_watcher (start_watcher JSON_parse page) rs) = length rs"
    if s: "start_watcher JSON_parse page = Started url ms seed"
  proof -
    from start_watcher_Started [OF s] obtain c config where
      c: "configEl page = Some c" and p: "JSON_parse (config_text c page) = Some config"
      and r: "read_interval config = Some ms" and ms: "ms > 0"
      by blast
    from s c p have u: "url = get_prop config ''apiUrl''" and t: "truthy url"
      by (auto simp: start_watcher_def Let_def split: option.splits if_splits)
    from c p u t r ms show ?thesis
      by (auto simp: s scheduled_interval_def run_watcher_def)
  qed
  from a b show ?thesis by blast
qed

theorem watcher_guard_witness:
  "configEl zero_interval_page \<noteq> None \<and>
   zero_interval_parse (config_text (the (configEl zero_interval_page)) zero_interval_page)
     = Some (JObj [(''apiUrl'', JStr ''/api/bracket''), (''refreshInterval'', JStr ''0'')]) \<and>
   \<not> positive (read_interval (JObj [(''apiUrl'', JStr ''/api/bracket''), (''refreshInterval'', JStr ''0'')])) \<and>
   scheduled_interval (start_watcher zero_interval_parse zero_interval_page) = None \<and>
   fst (run_watcher (start_watcher zero_interval_parse zero_interval_page) [NetworkError]) = 0 \<and>
   start_watcher suffixed_interval_parse suffixed_interval_page
     = Started (JStr ''/api/bracket'') 15 JUndefined \<and>
   read_interval (JObj [(''apiUrl'', JStr ''/api/bracket''), (''refreshInterval'', JStr ''15s'')]) = Some 15 \<and>
   fst (run_watcher (start_watcher suffixed_interval_parse suffixed_interval_page)
          [NetworkError, NetworkError, NetworkError]) = 3"
proof -
  have r: "read_interval (JObj [(''apiUrl'', JStr ''/api/bracket''), (''refreshInterval'', JStr ''0'')]) = Some 0"
    by code_simp
  have t: \<open>config_text (the (configEl zero_interval_page)) zero_interval_page = ''{"apiUrl": "/api/bracket", "refreshInterval": "0"}''\<close>
    by (simp add: config_text_def zero_interval_page_def)
  have h: "configEl zero_interval_page = None \<or>
           (\<exists>c. configEl zero_interval_page = Some c \<and>
              (case zero_interval_parse (config_text c zero_interval_page) of
                 None \<Rightarrow> True
               | Some config \<Rightarrow>
                   \<not> truthy (get_prop config ''apiUrl'') \<or> \<not> positive (read_interval config) \<or>
                   not_positive_number (get_prop config ''refreshInterval'')))"
    using r t by (simp add: zero_interval_page_def zero_interval_parse_def positive_def)
  have c: "configEl zero_interval_page \<noteq> None"
    by (simp add: zero_interval_page_def)
  have p: "zero_interval_parse (config_text (the (configEl zero_interval_page)) zero_interval_page)
     = Some (JObj [(''apiUrl'', JStr ''/api/bracket''), (''refreshInterval'', JStr ''0'')])"
    by (simp add: t zero_interval_parse_def)
  have n: "\<not> positive (read_interval (JObj [(''apiUrl'', JStr ''/api/bracket''), (''refreshInterval'', JStr ''0'')]))"
    by (simp add: r positive_def)
  have pi: "parseInt10 ''15s'' = Some 15" by code_simp
  have s: "start_watcher suffixed_interval_parse suffixed_interval_page
     = Started (JStr ''/api/bracket'') 15 JUndefined"
    by (simp add: start_watcher_def suffixed_interval_page_def suffixed_interval_parse_def
        config_text_def own_prop_def pi getAttribute_def)
  have ri: "read_interval (JObj [(''apiUrl'', JStr ''/api/bracket''), (''refreshInterval'', JStr ''15s'')]) = Some 15"
    by (simp add: read_interval_def own_prop_def pi)
  from watcher_guard [of zero_interval_page zero_interval_parse "[NetworkError]"] h
  have z: "scheduled_interval (start_watcher zero_interval_parse zero_interval_page) = None \<and>
   fst (run_watcher (start_watcher zero_interval_parse zero_interval_page) [NetworkError]) = 0"
    by blast
  from watcher_guard [of suffixed_interval_page suffixed_interval_parse
      "[NetworkError, NetworkError, NetworkError]" "JStr ''/api/bracket''" 15 JUndefined] s
  have f: "fst (run_watcher (start_watcher suffixed_interval_parse suffixed_interval_page)
          [NetworkError, NetworkError, NetworkError]) = 3"
    by simp
  from c p n z s ri f show ?thesis by blast
qed

section \<open>Properties of the renderer\<close>

subsection \<open>References and selectors\<close>

lemma nullish_not_truthy: "nullish v \<Longrightarrow> \<not> truthy v"
  by (cases v) auto













subsection \<open>The error banner\<close>



subsection \<open>Absent fields of a match\<close>

lemma absent_js_or: "match_field_absent match k \<Longrightarrow> js_or (opt_prop match k) d = d"
  by (simp add: match_field_absent_def js_or_def nullish_not_truthy)

lemma absent_get_prop: "match_field_absent match k \<Longrightarrow> nullish (get_prop match k)"
  by (cases match) (auto simp: match_field_absent_def opt_prop_def split: if_splits)

lemma absent_js_or_get: "match_field_absent match k \<Longrightarrow> js_or (get_prop match k) d = d"
  using absent_get_prop [of match k] by (simp add: js_or_def nullish_not_truthy)

lemma absent_score: "match_field_absent match k \<Longrightarrow> score_span (opt_prop match k) = Some []"
  by (simp add: match_field_absent_def score_span_def nullish_not_truthy)

lemma absent_score_get: "match_field_absent match k \<Longrightarrow> score_span (get_prop match k) = Some []"
  using absent_get_prop [of match k] by (simp add: score_span_def nullish_not_truthy)

lemma absent_id: "match_field_absent match k \<Longrightarrow> dataset_attr n g (get_prop match k) = Some []"
  using absent_get_prop [of match k] by (auto simp: dataset_attr_def nullish_iff)

lemma createMatchRow_Some:
  assumes "createMatchRow match = Some li"
  obtains matchId roundText player1 player2 score state where
    "dataset_attr ''data-match-id'' (truthy match) (get_prop match ''id'') = Some matchId"
    "to_string (js_or (opt_prop match ''round_label'') (JStr ''Round'')) = Some roundText"
    "to_string (js_or (opt_prop match ''player1_name'') (JStr ''TBD'')) = Some player1"
    "to_string (js_or (opt_prop match ''player2_name'') (JStr ''TBD'')) = Some player2"
    "score_span (opt_prop match ''score_text'') = Some score"
    "to_string (js_or (opt_prop match ''status_text'') (JStr '''')) = Some state"
    "li = Element ''li'' ((''class'', ''match-row'') # matchId)
       [text_element ''div'' ''match-round'' roundText,
        Element ''div'' [(''class'', ''match-players'')]
          [text_element ''span''
             (if opt_prop match ''winner_slot'' = JStr ''player1''
              then ''match-player winner'' else ''match-player'') player1,
           text_element ''span'' ''match-vs'' ''vs'',
           text_element ''span''
             (if opt_prop match ''winner_slot'' = JStr ''player2''
              then ''match-player winner'' else ''match-player'') player2],
        Element ''div'' [(''class'', ''match-meta'')]
          (score @ [text_element ''span'' ''match-state'' state])]"
  using assms unfolding createMatchRow_def
  by (auto simp: bind_eq_Some_conv)

lemma current_match_card_Some:
  assumes "current_match_card match = Some cardEl"
  obtains matchId roundText player1 player2 score state where
    "dataset_attr ''data-current-match-id'' True (get_prop match ''id'') = Some matchId"
    "to_string (js_or (get_prop match ''round_label'') (JStr ''Round'')) = Some roundText"
    "to_string (js_or (get_prop match ''player1_name'') (JStr ''TBD'')) = Some player1"
    "to_string (js_or (get_prop match ''player2_name'') (JStr ''TBD'')) = Some player2"
    "score_span (get_prop match ''score_text'') = Some score"
    "to_string (js_or (get_prop match ''status_text'') (JStr '''')) = Some state"
    "cardEl = Element ''div'' ((''class'', ''current-match-card'') # matchId)
       [text_element ''div'' ''match-round'' roundText,
        Element ''div'' [(''class'', ''current-versus'')]
          [text_element ''div''
             (if get_prop match ''winner_slot'' = JStr ''player1''
              then ''current-player winner'' else ''current-player'') player1,
           text_element ''div'' ''current-vs'' ''vs'',
           text_element ''div''
             (if get_prop match ''winner_slot'' = JStr ''player2''
              then ''current-player winner'' else ''current-player'') player2],
        Element ''div'' [(''class'', ''current-meta'')]
          (score @ [text_element ''span'' ''match-state'' state])]"
  using assms unfolding current_match_card_def
  by (auto simp: bind_eq_Some_conv)

text \<open>
  C8 as stated fails: for a match with no fields at all the row has the placeholders
  \<^verbatim>\<open>Round\<close> and \<^verbatim>\<open>TBD\<close>, but no score element, no identifier attribute, and a state element
  that is empty.
\<close>

theorem empty_match_row_counterexample:
  "createMatchRow (JObj []) =
     Some (Element ''li'' [(''class'', ''match-row'')]
       [Element ''div'' [(''class'', ''match-round'')] [Text ''Round''],
        Element ''div'' [(''class'', ''match-players'')]
          [Element ''span'' [(''class'', ''match-player'')] [Text ''TBD''],
           Element ''span'' [(''class'', ''match-vs'')] [Text ''vs''],
           Element ''span'' [(''class'', ''match-player'')] [Text ''TBD'']],
        Element ''div'' [(''class'', ''match-meta'')]
          [Element ''span'' [(''class'', ''match-state'')] []]])"
  by (simp add: createMatchRow_def dataset_attr_def score_span_def opt_prop_def own_prop_def
      js_or_def text_element_def text_nodes_def)

text \<open>
  C8, as amended.  In a row built by \<^verbatim>\<open>createMatchRow\<close> and in the card built by
  \<^verbatim>\<open>renderCurrent\<close>: an absent \<^verbatim>\<open>round_label\<close> is shown as \<^verbatim>\<open>Round\<close> and an absent player name
  as \<^verbatim>\<open>TBD\<close>; for an absent \<^verbatim>\<open>score_text\<close> no score element is made (the state element
  is alone); for an absent \<^verbatim>\<open>status_text\<close> the state element is there and empty; for an
  absent \<^verbatim>\<open>id\<close> the element has no attribute but its class.
\<close>

theorem absent_match_fields:
  assumes "createMatchRow match = Some li" and "current_match_card match = Some cardEl"
  shows "(match_field_absent match ''round_label'' \<longrightarrow>
            childNodes li ! 0 = Element ''div'' [(''class'', ''match-round'')] [Text ''Round''] \<and>
            childNodes cardEl ! 0 = Element ''div'' [(''class'', ''match-round'')] [Text ''Round'']) \<and>
         (match_field_absent match ''player1_name'' \<longrightarrow>
            childNodes (childNodes (childNodes li ! 1) ! 0) = [Text ''TBD''] \<and>
            childNodes (childNodes (childNodes cardEl ! 1) ! 0) = [Text ''TBD'']) \<and>
         (match_field_absent match ''player2_name'' \<longrightarrow>
            childNodes (childNodes (childNodes li ! 1) ! 2) = [Text ''TBD''] \<and>
            childNodes (childNodes (childNodes cardEl ! 1) ! 2) = [Text ''TBD'']) \<and>
         (match_field_absent match ''score_text'' \<longrightarrow>
            length (childNodes (childNodes li ! 2)) = 1 \<and>
            length (childNodes (childNodes cardEl ! 2)) = 1) \<and>
         (match_field_absent match ''status_text'' \<longrightarrow>
            last (childNodes (childNodes li ! 2)) = Element ''span'' [(''class'', ''match-state'')] [] \<and>
            last (childNodes (childNodes cardEl ! 2)) = Element ''span'' [(''class'', ''match-state'')] []) \<and>
         (match_field_absent match ''id'' \<longrightarrow>
            attributes li = [(''class'', ''match-row'')] \<and>
            attributes cardEl = [(''class'', ''current-match-card'')])"
proof -
  from assms(1) obtain matchId roundText player1 player2 score state where
    a: "dataset_attr ''data-match-id'' (truthy match) (get_prop match ''id'') = Some matchId"
    and b: "to_string (js_or (opt_prop match ''round_label'') (JStr ''Round'')) = Some roundText"
    and c: "to_string (js_or (opt_prop match ''player1_name'') (JStr ''TBD'')) = Some player1"
    and d: "to_string (js_or (opt_prop match ''player2_name'') (JStr ''TBD'')) = Some player2"
    and e: "score_span (opt_prop match ''score_text'') = Some score"
    and f: "to_string (js_or (opt_prop match ''status_text'') (JStr '''')) = Some state"
    and li: "li = Element ''li'' ((''class'', ''match-row'') # matchId)
       [text_element ''div'' ''match-round'' roundText,
        Element ''div'' [(''class'', ''match-players'')]
          [text_element ''span''
             (if opt_prop match ''winner_slot'' = JStr ''player1''
              then ''match-player winner'' else ''match-player'') player1,
           text_element ''span'' ''match-vs'' ''vs'',
           text_element ''span''
             (if opt_prop match ''winner_slot'' = JStr ''player2''
              then ''match-player winner'' else ''match-player'') player2],
        Element ''div'' [(''class'', ''match-meta'')]
          (score @ [text_element ''span'' ''match-state'' state])]"
    by (rule createMatchRow_Some)
  from assms(2) obtain matchId' roundText' player1' player2' score' state' where
    a': "dataset_attr ''data-current-match-id'' True (get_prop match ''id'') = Some matchId'"
    and b': "to_string (js_or (get_prop match ''round_label'') (JStr ''Round'')) = Some roundText'"
    and c': "to_string (js_or (get_prop match ''player1_name'') (JStr ''TBD'')) = Some player1'"
    and d': "to_string (js_or (get_prop match ''player2_name'') (JStr ''TBD'')) = Some player2'"
    and e': "score_span (get_prop match ''score_text'') = Some score'"
    and f': "to_string (js_or (get_prop match ''status_text'') (JStr '''')) = Some state'"
    and cardEl: "cardEl = Element ''div'' ((''class'', ''current-match-card'') # matchId')
       [text_element ''div'' ''match-round'' roundText',
        Element ''div'' [(''class'', ''current-versus'')]
          [text_element ''div''
             (if get_prop match ''winner_slot'' = JStr ''player1''
              then ''current-player winner'' else ''current-player'') player1',
           text_element ''div'' ''current-vs'' ''vs'',
           text_element ''div''
             (if get_prop match ''winner_slot'' = JStr ''player2''
              then ''current-player winner'' else ''current-player'') player2'],
        Element ''div'' [(''class'', ''current-meta'')]
          (score' @ [text_element ''span'' ''match-state'' state'])]"
    by (rule current_match_card_Some)
  have 1: "match_field_absent match ''round_label'' \<Longrightarrow> roundText = ''Round'' \<and> roundText' = ''Round''"
    using b b' by (simp add: absent_js_or absent_js_or_get)
  have 2: "match_field_absent match ''player1_name'' \<Longrightarrow> player1 = ''TBD'' \<and> player1' = ''TBD''"
    using c c' by (simp add: absent_js_or absent_js_or_get)
  have 3: "match_field_absent match ''player2_name'' \<Longrightarrow> player2 = ''TBD'' \<and> player2' = ''TBD''"
    using d d' by (simp add: absent_js_or absent_js_or_get)
  have 4: "match_field_absent match ''score_text'' \<Longrightarrow> score = [] \<and> score' = []"
    using e e' by (simp add: absent_score absent_score_get)
  have 5: "match_field_absent match ''status_text'' \<Longrightarrow> state = [] \<and> state' = []"
    using f f' by (simp add: absent_js_or absent_js_or_get)
  have 6: "match_field_absent match ''id'' \<Longrightarrow> matchId = [] \<and> matchId' = []"
    using a a' by (simp add: absent_id)
  show ?thesis
    using 1 2 3 4 5 6 by (auto simp: li cardEl text_element_def text_nodes_def)
qed

theorem absent_match_fields_witness:
  "createMatchRow (JObj [(''player1_name'', JStr ''Ada'')]) =
     Some (Element ''li'' [(''class'', ''match-row'')]
       [Element ''div'' [(''class'', ''match-round'')] [Text ''Round''],
        Element ''div'' [(''class'', ''match-players'')]
          [Element ''span'' [(''class'', ''match-player'')] [Text ''Ada''],
           Element ''span'' [(''class'', ''match-vs'')] [Text ''vs''],
           Element ''span'' [(''class'', ''match-player'')] [Text ''TBD'']],
        Element ''div'' [(''class'', ''match-meta'')]
          [Element ''span'' [(''class'', ''match-state'')] []]]) \<and>
   current_match_card (JObj [(''player1_name'', JStr ''Ada'')]) =
     Some (Element ''div'' [(''class'', ''current-match-card'')]
       [Element ''div'' [(''class'', ''match-round'')] [Text ''Round''],
        Element ''div'' [(''class'', ''current-versus'')]
          [Element ''div'' [(''class'', ''current-player'')] [Text ''Ada''],
           Element ''div'' [(''class'', ''current-vs'')] [Text ''vs''],
           Element ''div'' [(''class'', ''current-player'')] [Text ''TBD'']],
        Element ''div'' [(''class'', ''current-meta'')]
          [Element ''span'' [(''class'', ''match-state'')] []]]) \<and>
   match_field_absent (JObj [(''player1_name'', JStr ''Ada'')]) ''status_text'' \<and>
   match_field_absent (JObj [(''player1_name'', JStr ''Ada'')]) ''player2_name'' \<and>
   \<not> match_field_absent (JObj [(''player1_name'', JStr ''Ada'')]) ''player1_name''"
proof -
  let ?m = "JObj [(''player1_name'', JStr ''Ada'')]"
  let ?li = "Element ''li'' [(''class'', ''match-row'')]
       [Element ''div'' [(''class'', ''match-round'')] [Text ''Round''],
        Element ''div'' [(''class'', ''match-players'')]
          [Element ''span'' [(''class'', ''match-player'')] [Text ''Ada''],
           Element ''span'' [(''class'', ''match-vs'')] [Text ''vs''],
           Element ''span'' [(''class'', ''match-player'')] [Text ''TBD'']],
        Element ''div'' [(''class'', ''match-meta'')]
          [Element ''span'' [(''class'', ''match-state'')] []]]"
  let ?card = "Element ''div'' [(''class'', ''current-match-card'')]
       [Element ''div'' [(''class'', ''match-round'')] [Text ''Round''],
        Element ''div'' [(''class'', ''current-versus'')]
          [Element ''div'' [(''class'', ''current-player'')] [Text ''Ada''],
           Element ''div'' [(''class'', ''current-vs'')] [Text ''vs''],
           Element ''div'' [(''class'', ''current-player'')] [Text ''TBD'']],
        Element ''div'' [(''class'', ''current-meta'')]
          [Element ''span'' [(''class'', ''match-state'')] []]]"
  have r: "createMatchRow ?m = Some ?li"
    by (simp add: createMatchRow_def dataset_attr_def score_span_def opt_prop_def own_prop_def
        js_or_def text_element_def text_nodes_def)
  have c: "current_match_card ?m = Some ?card"
    by (simp add: current_match_card_def dataset_attr_def score_span_def own_prop_def
        js_or_def text_element_def text_nodes_def)
  have ab: "match_field_absent ?m ''status_text''" "match_field_absent ?m ''player2_name''"
    "\<not> match_field_absent ?m ''player1_name''"
    by (simp_all add: match_field_absent_def opt_prop_def own_prop_def)
  from absent_match_fields [OF r c] ab
  have "last (childNodes (childNodes ?li ! 2)) = Element ''span'' [(''class'', ''match-state'')] []"
    by blast
  with r c ab show ?thesis by blast
qed

subsection \<open>Rendering twice\<close>
















lemma renderCurrent_rebuild:
  "renderCurrent section match doc =
     rebuild section
       (if \<not> truthy match then Some (empty_copy ''No live match right now.'')
        else current_match_card match) doc"
  by (simp add: renderCurrent_def rebuild_def Let_def split: option.splits)

lemma renderMatchList_rebuild:
  "renderMatchList section matches emptyText doc =
     rebuild section
       (if \<not> truthy matches \<or> \<not> truthy (get_prop matches ''length'') then Some (empty_copy emptyText)
        else map_option (Element ''ul'' [(''class'', ''match-list'')]) (match_rows matches)) doc"
  by (simp add: renderMatchList_def rebuild_def Let_def split: option.splits)

lemma renderRounds_rebuild:
  "renderRounds section rounds doc =
     rebuild section
       (if \<not> truthy rounds \<or> \<not> truthy (get_prop rounds ''length'')
        then Some (empty_copy ''Bracket data will appear once matches are seeded.'')
        else (case forEach_elements rounds of
                None \<Rightarrow> None
              | Some rs \<Rightarrow> map_option (Element ''div'' [(''class'', ''rounds-grid'')])
                            (all_or_none (map round_card rs)))) doc"
  by (simp add: renderRounds_def rebuild_def Let_def split: option.splits)




text \<open>The hypothesis is needed: a section without an element child keeps what the first
  pass appended, and the second pass appends it again.\<close>

lemma unseeded_region_accumulates:
  "\<not> region_seeded two_region_page ''data-challonge-recent'' \<and>
   result (render_recent_region one_match_payload two_region_page) =
     Element ''main'' [(''data-challonge-root'', '''')]
       [Element ''section'' [(''data-challonge-upcoming'', '''')]
          [Text ''  '', Element ''h3'' [] [Text ''Up next''], Text ''  ''],
        Element ''section'' [(''data-challonge-recent'', '''')]
          [Element ''p'' [(''class'', ''empty-copy'')] [Text ''No matches have been completed yet.'']]] \<and>
   result (render_recent_region one_match_payload
             (result (render_recent_region one_match_payload two_region_page))) =
     Element ''main'' [(''data-challonge-root'', '''')]
       [Element ''section'' [(''data-challonge-upcoming'', '''')]
          [Text ''  '', Element ''h3'' [] [Text ''Up next''], Text ''  ''],
        Element ''section'' [(''data-challonge-recent'', '''')]
          [Element ''p'' [(''class'', ''empty-copy'')] [Text ''No matches have been completed yet.''],
           Element ''p'' [(''class'', ''empty-copy'')] [Text ''No matches have been completed yet.'']]]"
  by code_simp

text \<open>On a complete scaffold whose regions are seeded, the whole of \<^verbatim>\<open>applyPayload\<close>,
  status summary included, reaches in one pass the document a second pass reproduces.\<close>

lemma applyPayload_twice_example:
  "region_seeded full_page ''data-challonge-current'' \<and>
   region_seeded full_page ''data-challonge-upcoming'' \<and>
   region_seeded full_page ''data-challonge-recent'' \<and>
   region_seeded full_page ''data-challonge-rounds'' \<and>
   applyPayload full_payload (result (applyPayload full_payload full_page))
     = applyPayload full_payload full_page"
  by code_simp

section \<open>Properties of the status poller\<close>

subsection \<open>The synthesized payload always renders\<close>

lemma run_steps_never_throws:
  "list_all never_throws fs \<Longrightarrow> never_throws (run_steps fs)"
proof (induction fs)
  case Nil
  then show ?case by (simp add: never_throws_def)
next
  case (Cons f fs)
  then have f: "never_throws f" and fs: "never_throws (run_steps fs)" by simp_all
  show ?case
    unfolding never_throws_def
  proof
    fix d
    from f obtain d1 where d1: "f d = Done d1" by (auto simp: never_throws_def)
    from fs obtain d2 where "run_steps fs d1 = Done d2" by (auto simp: never_throws_def)
    with d1 show "\<exists>d'. run_steps (f # fs) d = Done d'" by simp
  qed
qed

lemma assign_textContent_string: "assign_textContent p (JStr s) doc = Done (update_at p (set_textContent s) doc)"
  by (simp add: assign_textContent_def)

lemma updateStatus_error_payload: "never_throws (updateStatus error_payload)"
proof -
  have t: "js_or (opt_prop error_payload ''tournament'') JNull = JNull"
    by (simp add: error_payload_def opt_prop_def own_prop_def js_or_def)
  have 1: "never_throws (status_name sp JNull)" for sp
    by (auto simp: never_throws_def status_name_def opt_prop_def js_or_def assign_textContent_string
        split: option.splits)
  have 2: "never_throws (status_state sp JNull)" for sp
    by (auto simp: never_throws_def status_state_def opt_prop_def assign_textContent_string
        split: option.splits)
  have 3: "never_throws (status_count m f sp JNull)" for m f sp
    by (auto simp: never_throws_def status_count_def opt_prop_def assign_textContent_string
        split: option.splits)
  have 4: "never_throws (status_updated sp error_payload)" for sp
    by (auto simp: never_throws_def status_updated_def opt_prop_def js_or_def own_prop_def
        error_payload_def assign_textContent_string split: option.splits)
  have 5: "never_throws (status_link sp JNull)" for sp
    by (auto simp: never_throws_def status_link_def opt_prop_def assign_href_def
        split: option.splits)
  have 6: "never_throws (status_error sp error_payload)" for sp
    by (auto simp: never_throws_def status_error_def opt_prop_def own_prop_def
        error_payload_def Let_def split: option.splits)
  have all: "never_throws (run_steps
            [status_name sp JNull,
             status_state sp JNull,
             status_count ''data-challonge-participants'' ''total_participants'' sp JNull,
             status_count ''data-challonge-matches'' ''total_matches'' sp JNull,
             status_updated sp error_payload,
             status_link sp JNull,
             status_error sp error_payload])" for sp
    by (rule run_steps_never_throws) (simp add: 1 2 3 4 5 6)
  show ?thesis
    unfolding never_throws_def
  proof
    fix d
    show "\<exists>d'. updateStatus error_payload d = Done d'"
    proof (cases "querySelector d ''data-challonge-status''")
      case None
      then show ?thesis by (simp add: updateStatus_def)
    next
      case (Some sp)
      with all [of sp] show ?thesis
        by (simp add: updateStatus_def t never_throws_def)
    qed
  qed
qed

lemma applyPayload_error_payload: "never_throws (applyPayload error_payload)"
proof -
  have t: "js_or (opt_prop error_payload ''tournament'') JNull = JNull"
    by (simp add: error_payload_def opt_prop_def own_prop_def js_or_def)
  have c: "js_or (opt_prop JNull k) d = d" for k d
    by (simp add: opt_prop_def js_or_def)
  have 1: "never_throws (render_current_region error_payload)"
    unfolding never_throws_def render_current_region_def t c
    by (auto simp: renderCurrent_def split: option.splits)
  have 2: "never_throws (render_upcoming_region error_payload)"
    unfolding never_throws_def render_upcoming_region_def t c
    by (auto simp: renderMatchList_def split: option.splits)
  have 3: "never_throws (render_recent_region error_payload)"
    unfolding never_throws_def render_recent_region_def t c
    by (auto simp: renderMatchList_def split: option.splits)
  have 4: "never_throws (render_rounds_region error_payload)"
    unfolding never_throws_def render_rounds_region_def t c
    by (auto simp: renderRounds_def split: option.splits)
  show ?thesis
    unfolding applyPayload_def
    by (rule run_steps_never_throws) (simp add: updateStatus_error_payload 1 2 3 4)
qed


lemma scheduleNext_fields:
  "timer (scheduleNext st) = Some (next_id st)"
  "next_id (scheduleNext st) = Suc (next_id st)"
  "in_flight (scheduleNext st) = in_flight st"
  "root (scheduleNext st) = root st"
  by (simp_all add: scheduleNext_def setTimeout_def clearTimeout_def Let_def split: option.splits)

lemma scheduleNext_pending:
  "pending (scheduleNext st) =
     (case timer st of
        None \<Rightarrow> pending st
      | Some t \<Rightarrow> if t \<noteq> 0 then filter (\<lambda>x. fst x \<noteq> t) (pending st) else pending st)
     @ [(next_id st, REFRESH_MS)]"
  by (simp add: scheduleNext_def setTimeout_def clearTimeout_def Let_def split: option.splits)

lemma scheduleNext_trace:
  "trace (scheduleNext st) =
     trace st @
     (case timer st of
        None \<Rightarrow> []
      | Some t \<Rightarrow> if t \<noteq> 0 then [ClearTimeout t] else [])
     @ [SetTimeout (next_id st) REFRESH_MS]"
  by (simp add: scheduleNext_def setTimeout_def clearTimeout_def Let_def split: option.splits)

lemma tracked_filter:
  "list_all (\<lambda>t. Some u = Some (fst t) \<and> fst t \<noteq> 0) ps \<Longrightarrow> filter (\<lambda>x. fst x \<noteq> u) ps = []"
  by (induction ps) auto

lemma scheduleNext_tracked:
  assumes "timers_tracked st"
  shows "pending (scheduleNext st) = [(next_id st, REFRESH_MS)]"
    and "timers_tracked (scheduleNext st)"
proof -
  show p: "pending (scheduleNext st) = [(next_id st, REFRESH_MS)]"
  proof (cases "timer st")
    case None
    with assms have "pending st = []"
      by (cases "pending st") (auto simp: timers_tracked_def)
    with None show ?thesis by (simp add: scheduleNext_pending)
  next
    case (Some t)
    show ?thesis
    proof (cases "pending st")
      case Nil
      with Some show ?thesis by (simp add: scheduleNext_pending)
    next
      case (Cons a ps)
      with assms Some have "t \<noteq> 0" by (auto simp: timers_tracked_def)
      moreover from assms Some have "filter (\<lambda>x. fst x \<noteq> t) (pending st) = []"
        by (intro tracked_filter) (simp add: timers_tracked_def)
      ultimately show ?thesis using Some by (simp add: scheduleNext_pending)
    qed
  qed
  from assms show "timers_tracked (scheduleNext st)"
    by (simp add: timers_tracked_def p scheduleNext_fields)
qed

lemma rendered_payloads_append:
  "rendered_payloads (a @ b) = rendered_payloads a @ rendered_payloads b"
  by (induction a rule: rendered_payloads.induct) auto

lemma scheduled_delays_append:
  "scheduled_delays (a @ b) = scheduled_delays a @ scheduled_delays b"
  by (induction a rule: scheduled_delays.induct) auto

lemma scheduleNext_new_events:
  "scheduled_delays (drop (length (trace st)) (trace (scheduleNext st))) = [REFRESH_MS]"
  "rendered_payloads (drop (length (trace st)) (trace (scheduleNext st))) = []"
  by (simp_all add: scheduleNext_trace split: option.splits)

lemma on_rejected_eq:
  "\<exists>d. applyPayload error_payload (root st) = Done d \<and>
        on_rejected st =
          scheduleNext (st\<lparr>root := d, trace := trace st @ [ConsoleError, ApplyPayload error_payload]\<rparr>)"
proof -
  from applyPayload_error_payload obtain d where "applyPayload error_payload (root st) = Done d"
    by (auto simp: never_throws_def)
  then show ?thesis
    by (simp add: on_rejected_def call_applyPayload_def)
qed

text \<open>Every completion ends in exactly one \<^verbatim>\<open>scheduleNext\<close>, after one or two calls of
  \<^verbatim>\<open>applyPayload\<close>.\<close>

lemma fetch_completes_eq:
  "\<exists>d es. fetch_completes r st =
            scheduleNext (st\<lparr>in_flight := in_flight st - 1, root := d, trace := trace st @ es\<rparr>) \<and>
          scheduled_delays es = [] \<and>
          rendered_payloads es =
            (if first_render_throws r st then [payload_to_render r, error_payload]
             else [payload_to_render r])"
proof (cases r)
  case NetworkError
  from on_rejected_eq [of "st\<lparr>in_flight := in_flight st - 1\<rparr>"]
  obtain d where "on_rejected (st\<lparr>in_flight := in_flight st - 1\<rparr>) =
      scheduleNext (st\<lparr>in_flight := in_flight st - 1, root := d,
        trace := trace st @ [ConsoleError, ApplyPayload error_payload]\<rparr>)"
    by auto
  with NetworkError show ?thesis
    by (intro exI [of _ d] exI [of _ "[ConsoleError, ApplyPayload error_payload]"])
      (simp add: fetch_completes_def first_render_throws_def payload_to_render_def)
next
  case (Response ok body)
  show ?thesis
  proof (cases body)
    case None
    from on_rejected_eq [of "st\<lparr>in_flight := in_flight st - 1\<rparr>"]
    obtain d where "on_rejected (st\<lparr>in_flight := in_flight st - 1\<rparr>) =
        scheduleNext (st\<lparr>in_flight := in_flight st - 1, root := d,
          trace := trace st @ [ConsoleError, ApplyPayload error_payload]\<rparr>)"
      by auto
    with Response None show ?thesis
      by (intro exI [of _ d] exI [of _ "[ConsoleError, ApplyPayload error_payload]"])
        (simp add: fetch_completes_def first_render_throws_def payload_to_render_def)
  next
    case (Some data)
    let ?p = "received_payload ok data"
    show ?thesis
    proof (cases "applyPayload ?p (root st)")
      case (Done d)
      with Response Some show ?thesis
        by (intro exI [of _ d] exI [of _ "[ApplyPayload ?p]"])
          (simp add: fetch_completes_def first_render_throws_def payload_to_render_def
            call_applyPayload_def)
    next
      case (Throw d)
      let ?st1 = "st\<lparr>in_flight := in_flight st - 1, root := d, trace := trace st @ [ApplyPayload ?p]\<rparr>"
      from on_rejected_eq [of ?st1]
      obtain d' where "on_rejected ?st1 =
          scheduleNext (st\<lparr>in_flight := in_flight st - 1, root := d',
            trace := trace st @ [ApplyPayload ?p, ConsoleError, ApplyPayload error_payload]\<rparr>)"
        by auto
      with Response Some Throw show ?thesis
        by (intro exI [of _ d'] exI [of _ "[ApplyPayload ?p, ConsoleError, ApplyPayload error_payload]"])
          (simp add: fetch_completes_def first_render_throws_def payload_to_render_def
            call_applyPayload_def)
    qed
  qed
qed

lemma fetch_completes_effect:
  shows "scheduled_delays (new_events st (fetch_completes r st)) = [REFRESH_MS]"
    and "rendered_payloads (new_events st (fetch_completes r st)) =
            (if first_render_throws r st then [payload_to_render r, error_payload]
             else [payload_to_render r])"
    and "in_flight (fetch_completes r st) = in_flight st - 1"
    and "timers_tracked st \<Longrightarrow> pending (fetch_completes r st) = [(next_id st, REFRESH_MS)]"
    and "timers_tracked st \<Longrightarrow> timers_tracked (fetch_completes r st)"
proof -
  from fetch_completes_eq [of r st] obtain d es where
    eq: "fetch_completes r st =
            scheduleNext (st\<lparr>in_flight := in_flight st - 1, root := d, trace := trace st @ es\<rparr>)"
    and sd: "scheduled_delays es = []"
    and rp: "rendered_payloads es =
            (if first_render_throws r st then [payload_to_render r, error_payload]
             else [payload_to_render r])"
    by blast
  let ?st1 = "st\<lparr>in_flight := in_flight st - 1, root := d, trace := trace st @ es\<rparr>"
  have tr: "trace (fetch_completes r st) =
      trace st @ es @
      (case timer st of None \<Rightarrow> [] | Some t \<Rightarrow> if t \<noteq> 0 then [ClearTimeout t] else [])
      @ [SetTimeout (next_id st) REFRESH_MS]"
    by (simp add: eq scheduleNext_trace)
  show "scheduled_delays (new_events st (fetch_completes r st)) = [REFRESH_MS]"
    by (simp add: new_events_def tr scheduled_delays_append sd split: option.splits)
  show "rendered_payloads (new_events st (fetch_completes r st)) =
            (if first_render_throws r st then [payload_to_render r, error_payload]
             else [payload_to_render r])"
    by (simp add: new_events_def tr rendered_payloads_append rp split: option.splits)
  show "in_flight (fetch_completes r st) = in_flight st - 1"
    by (simp add: eq scheduleNext_fields)
  assume t: "timers_tracked st"
  then have t1: "timers_tracked ?st1" by (simp add: timers_tracked_def)
  from scheduleNext_tracked [OF t1]
  show "pending (fetch_completes r st) = [(next_id st, REFRESH_MS)]"
    and "timers_tracked (fetch_completes r st)"
    by (simp_all add: eq)
qed

lemma timer_fires_effect:
  shows "new_events st (timer_fires i st) = [Fetch]"
    and "in_flight (timer_fires i st) = Suc (in_flight st)"
    and "pending (timer_fires i st) = filter (\<lambda>t. fst t \<noteq> i) (pending st)"
    and "timers_tracked st \<Longrightarrow> timers_tracked (timer_fires i st)"
  by (simp_all add: timer_fires_def fetchAndRender_def new_events_def timers_tracked_def
      list_all_iff)

text \<open>The invariant of the loop: timeouts are tracked, and there is exactly one request
  in flight or one timeout pending.\<close>

lemma reachable_invariant:
  assumes "reachable st"
  shows "timers_tracked st \<and> in_flight st + length (pending st) = 1"
  using assms
proof (induction rule: reachable.induct)
  case (start r)
  show ?case by (simp add: start_poller_def fetchAndRender_def timers_tracked_def)
next
  case (fire st i)
  then have t: "timers_tracked st" and one: "in_flight st + length (pending st) = 1" by simp_all
  from fire(2) one obtain d where p: "pending st = [(i, d)]"
    by (cases "pending st") auto
  with one have "in_flight st = 0" by simp
  with p t show ?case
    by (simp add: timer_fires_effect)
next
  case (complete st r)
  then have t: "timers_tracked st" and one: "in_flight st + length (pending st) = 1" by simp_all
  with complete(2) have "in_flight st = 1" by simp
  with t show ?case
    by (simp add: fetch_completes_effect)
qed


lemma scheduleNext_funpow:
  assumes "timers_tracked st"
  shows "timers_tracked ((scheduleNext ^^ n) st) \<and> next_id ((scheduleNext ^^ n) st) = next_id st + n"
proof (induction n)
  case 0
  from assms show ?case by simp
next
  case (Suc n)
  then show ?case
    by (simp add: scheduleNext_tracked scheduleNext_fields)
qed

subsection \<open>Payloads of the documented shape render without exception\<close>

lemma map_of_update_prop:
  "map_of (update_prop k x ps) k' = (if k' = k then Some x else map_of ps k')"
  by (induction ps) auto

lemma scalar_to_string: "is_scalar v \<Longrightarrow> \<exists>s. to_string v = Some s"
  by (cases v) (auto simp: is_scalar_def)

lemma scalar_js_or: "is_scalar v \<Longrightarrow> \<exists>s. to_string (js_or v (JStr d)) = Some s"
  by (auto simp: js_or_def dest: scalar_to_string)

lemma scalar_opt_prop: "is_scalar (get_prop m k) \<Longrightarrow> is_scalar (opt_prop m k)"
  by (simp add: opt_prop_def is_scalar_def)

lemma scalar_dataset_attr: "is_scalar v \<Longrightarrow> \<exists>a. dataset_attr n g v = Some a"
  by (auto simp: dataset_attr_def dest: scalar_to_string)

lemma scalar_score_span: "is_scalar v \<Longrightarrow> \<exists>a. score_span v = Some a"
  by (auto simp: score_span_def dest: scalar_to_string)

lemma createMatchRow_well_shaped:
  assumes "well_shaped_match m"
  shows "\<exists>n. createMatchRow m = Some n"
proof -
  from assms have s: "is_scalar (get_prop m ''id'')" "is_scalar (get_prop m ''round_label'')"
    "is_scalar (get_prop m ''player1_name'')" "is_scalar (get_prop m ''player2_name'')"
    "is_scalar (get_prop m ''score_text'')" "is_scalar (get_prop m ''status_text'')"
    by (simp_all add: well_shaped_match_def)
  from scalar_dataset_attr [OF s(1)] obtain a where
    a: "dataset_attr ''data-match-id'' (truthy m) (get_prop m ''id'') = Some a" by blast
  from scalar_js_or [OF scalar_opt_prop [OF s(2)]] obtain b where
    b: "to_string (js_or (opt_prop m ''round_label'') (JStr ''Round'')) = Some b" by blast
  from scalar_js_or [OF scalar_opt_prop [OF s(3)]] obtain c where
    c: "to_string (js_or (opt_prop m ''player1_name'') (JStr ''TBD'')) = Some c" by blast
  from scalar_js_or [OF scalar_opt_prop [OF s(4)]] obtain d where
    d: "to_string (js_or (opt_prop m ''player2_name'') (JStr ''TBD'')) = Some d" by blast
  from scalar_score_span [OF scalar_opt_prop [OF s(5)]] obtain e where
    e: "score_span (opt_prop m ''score_text'') = Some e" by blast
  from scalar_js_or [OF scalar_opt_prop [OF s(6)]] obtain f where
    f: "to_string (js_or (opt_prop m ''status_text'') (JStr '''')) = Some f" by blast
  show ?thesis by (simp add: createMatchRow_def a b c d e f)
qed

lemma current_match_card_well_shaped:
  assumes "well_shaped_match m"
  shows "\<exists>n. current_match_card m = Some n"
proof -
  from assms have s: "is_scalar (get_prop m ''id'')" "is_scalar (get_prop m ''round_label'')"
    "is_scalar (get_prop m ''player1_name'')" "is_scalar (get_prop m ''player2_name'')"
    "is_scalar (get_prop m ''score_text'')" "is_scalar (get_prop m ''status_text'')"
    by (simp_all add: well_shaped_match_def)
  from scalar_dataset_attr [OF s(1)] obtain a where
    a: "dataset_attr ''data-current-match-id'' True (get_prop m ''id'') = Some a" by blast
  from scalar_js_or [OF s(2)] obtain b where
    b: "to_string (js_or (get_prop m ''round_label'') (JStr ''Round'')) = Some b" by blast
  from scalar_js_or [OF s(3)] obtain c where
    c: "to_string (js_or (get_prop m ''player1_name'') (JStr ''TBD'')) = Some c" by blast
  from scalar_js_or [OF s(4)] obtain d where
    d: "to_string (js_or (get_prop m ''player2_name'') (JStr ''TBD'')) = Some d" by blast
  from scalar_score_span [OF s(5)] obtain e where
    e: "score_span (get_prop m ''score_text'') = Some e" by blast
  from scalar_js_or [OF s(6)] obtain f where
    f: "to_string (js_or (get_prop m ''status_text'') (JStr '''')) = Some f" by blast
  show ?thesis by (simp add: current_match_card_def a b c d e f)
qed

lemma all_or_none_Some:
  "list_all (\<lambda>x. \<exists>y. f x = Some y) xs \<Longrightarrow> \<exists>ys. all_or_none (map f xs) = Some ys"
  by (induction xs) auto

lemma match_rows_well_shaped:
  assumes "well_shaped_matches v"
  shows "\<exists>rows. match_rows (js_or v (JArr [] [])) = Some rows"
proof (cases v)
  case (JArr ms ps)
  with assms have ps: "ps = []" and all: "list_all well_shaped_match ms"
    by (simp_all add: well_shaped_matches_def)
  from all have "list_all (\<lambda>x. \<exists>y. createMatchRow x = Some y) ms"
    by (simp add: list_all_iff createMatchRow_well_shaped)
  from all_or_none_Some [OF this] JArr ps show ?thesis
    by (simp add: match_rows_def forEach_elements_def js_or_def)
qed (use assms in \<open>simp_all add: well_shaped_matches_def js_or_def match_rows_def forEach_elements_def\<close>)

lemma round_card_well_shaped:
  assumes "well_shaped_round r"
  shows "\<exists>n. round_card r = Some n"
proof -
  from assms obtain ps where r: "r = JObj ps"
    and s: "is_scalar (get_prop r ''round'')" "is_scalar (get_prop r ''round_label'')"
      "well_shaped_matches (get_prop r ''matches'')"
    by (cases r) (auto simp: well_shaped_round_def)
  from scalar_dataset_attr [OF s(1)] obtain a where
    a: "dataset_attr ''data-round'' True (get_prop r ''round'') = Some a" by blast
  have "is_scalar (js_coalesce (get_prop r ''round'') (JStr ''''))"
    using s(1) by (simp add: js_coalesce_def is_scalar_def)
  from scalar_to_string [OF this] scalar_to_string [OF s(2)] obtain b where
    b: "(if truthy (get_prop r ''round_label'')
           then to_string (get_prop r ''round_label'')
           else map_option (\<lambda>s. ''Round '' @ s)
                  (to_string (js_coalesce (get_prop r ''round'') (JStr '''')))) = Some b"
    by (cases "truthy (get_prop r ''round_label'')") auto
  from match_rows_well_shaped [OF s(3)] obtain c where
    c: "match_rows (js_or (get_prop r ''matches'') (JArr [] [])) = Some c" by blast
  have nn: "\<not> nullish r" using r by simp
  show ?thesis by (simp add: round_card_def nn a b c)
qed


lemma scalar_assign_textContent:
  "is_scalar v \<Longrightarrow> \<exists>d. assign_textContent p v doc = Done d"
  by (auto simp: assign_textContent_def dest: scalar_to_string)

lemma well_shaped_tournament_props:
  assumes "well_shaped_tournament t"
  shows "is_scalar (opt_prop t ''name'')" "text_or_absent (opt_prop t ''state'')"
    "is_scalar (opt_prop t ''total_participants'')" "is_scalar (opt_prop t ''total_matches'')"
    "is_scalar (opt_prop t ''url'')"
    "nullish (opt_prop t ''current_match'') \<or>
       (is_object (opt_prop t ''current_match'') \<and> well_shaped_match (opt_prop t ''current_match''))"
    "well_shaped_matches (opt_prop t ''upcoming_matches'')"
    "well_shaped_matches (opt_prop t ''recent_matches'')"
    "well_shaped_rounds (opt_prop t ''rounds'')"
  using assms
  by (cases t; simp add: well_shaped_tournament_def opt_prop_def is_scalar_def text_or_absent_def
      well_shaped_matches_def well_shaped_rounds_def)+

lemma well_shaped_payload_props:
  assumes "well_shaped_payload p"
  shows "is_scalar (opt_prop p ''error'')" "is_scalar (opt_prop p ''fetched_at'')"
    "well_shaped_tournament (js_or (opt_prop p ''tournament'') JNull)"
  using assms
  by (cases p; auto simp: well_shaped_payload_def opt_prop_def is_scalar_def js_or_def
      well_shaped_tournament_def dest: nullish_not_truthy)+


lemma updateStatus_well_shaped:
  assumes "well_shaped_payload p"
  shows "never_throws (updateStatus p)"
proof -
  let ?t = "js_or (opt_prop p ''tournament'') JNull"
  note tp = well_shaped_tournament_props [OF well_shaped_payload_props(3) [OF assms]]
  note pp = well_shaped_payload_props [OF assms]
  have 1: "never_throws (status_name sp ?t)" for sp
    using scalar_js_or [OF tp(1), of "''Challonge Tournament''"]
    by (auto simp: never_throws_def status_name_def assign_textContent_def split: option.splits)
  have 2: "never_throws (status_state sp ?t)" for sp
  proof (cases "truthy (opt_prop ?t ''state'')")
    case True
    with tp(2) obtain s where "opt_prop ?t ''state'' = JStr s"
      by (cases "opt_prop ?t ''state''") (auto simp: text_or_absent_def)
    moreover from this have "get_prop ?t ''state'' = JStr s"
      by (auto simp: opt_prop_def split: if_splits)
    ultimately show ?thesis
      by (auto simp: never_throws_def status_state_def assign_textContent_def split: option.splits)
  next
    case False
    then show ?thesis
      by (auto simp: never_throws_def status_state_def assign_textContent_def split: option.splits)
  qed
  have 3: "never_throws (status_count m ''total_participants'' sp ?t)" for m sp
    using tp(3) scalar_to_string [of "get_prop ?t ''total_participants''"]
    by (auto simp: never_throws_def status_count_def assign_textContent_def opt_prop_def
        split: option.splits if_splits)
  have 4: "never_throws (status_count m ''total_matches'' sp ?t)" for m sp
    using tp(4) scalar_to_string [of "get_prop ?t ''total_matches''"]
    by (auto simp: never_throws_def status_count_def assign_textContent_def opt_prop_def
        split: option.splits if_splits)
  have 5: "never_throws (status_updated sp p)" for sp
    using scalar_js_or [OF pp(2), of em_dash]
    by (auto simp: never_throws_def status_updated_def assign_textContent_def split: option.splits)
  have 6: "never_throws (status_link sp ?t)" for sp
    using scalar_to_string [OF tp(5)]
    by (auto simp: never_throws_def status_link_def assign_href_def split: option.splits)
  have 7: "never_throws (status_error sp p)" for sp
    using scalar_to_string [OF pp(1)]
    by (auto simp: never_throws_def status_error_def Let_def split: option.splits)
  have all: "never_throws (run_steps
            [status_name sp ?t,
             status_state sp ?t,
             status_count ''data-challonge-participants'' ''total_participants'' sp ?t,
             status_count ''data-challonge-matches'' ''total_matches'' sp ?t,
             status_updated sp p,
             status_link sp ?t,
             status_error sp p])" for sp
    by (rule run_steps_never_throws) (simp add: 1 2 3 4 5 6 7)
  show ?thesis
    unfolding never_throws_def
  proof
    fix d
    show "\<exists>d'. updateStatus p d = Done d'"
    proof (cases "querySelector d ''data-challonge-status''")
      case None
      then show ?thesis by (simp add: updateStatus_def)
    next
      case (Some sp)
      with all [of sp] show ?thesis
        by (simp add: updateStatus_def never_throws_def Let_def)
    qed
  qed
qed

lemma rebuild_never_throws: "content \<noteq> None \<Longrightarrow> \<exists>d. rebuild section content doc = Done d"
  by (auto simp: rebuild_def split: option.splits)

lemma applyPayload_well_shaped:
  assumes "well_shaped_payload p"
  shows "never_throws (applyPayload p)"
proof -
  let ?t = "js_or (opt_prop p ''tournament'') JNull"
  note tp = well_shaped_tournament_props [OF well_shaped_payload_props(3) [OF assms]]
  have 1: "never_throws (render_current_region p)"
  proof -
    let ?m = "js_or (opt_prop ?t ''current_match'') JNull"
    have "truthy ?m \<Longrightarrow> current_match_card ?m \<noteq> None"
      using tp(6) current_match_card_well_shaped [of ?m]
      by (auto simp: js_or_def dest: nullish_not_truthy)
    then show ?thesis
      unfolding never_throws_def render_current_region_def renderCurrent_rebuild
      by (intro allI rebuild_never_throws) simp
  qed
  have rows: "well_shaped_matches v \<Longrightarrow>
      (if \<not> truthy (js_or v (JArr [] [])) \<or> \<not> truthy (get_prop (js_or v (JArr [] [])) ''length'')
       then Some (empty_copy e)
       else map_option (Element ''ul'' [(''class'', ''match-list'')]) (match_rows (js_or v (JArr [] []))))
      \<noteq> None" for v e
    using match_rows_well_shaped [of v] by auto
  have 2: "never_throws (render_upcoming_region p)"
    unfolding never_throws_def render_upcoming_region_def renderMatchList_rebuild
    by (intro allI rebuild_never_throws rows tp(7))
  have 3: "never_throws (render_recent_region p)"
    unfolding never_throws_def render_recent_region_def renderMatchList_rebuild
    by (intro allI rebuild_never_throws rows tp(8))
  have 4: "never_throws (render_rounds_region p)"
  proof -
    let ?r = "js_or (opt_prop ?t ''rounds'') (JArr [] [])"
    have "(if \<not> truthy ?r \<or> \<not> truthy (get_prop ?r ''length'')
        then Some (empty_copy ''Bracket data will appear once matches are seeded.'')
        else (case forEach_elements ?r of
                None \<Rightarrow> None
              | Some rs \<Rightarrow> map_option (Element ''div'' [(''class'', ''rounds-grid'')])
                            (all_or_none (map round_card rs)))) \<noteq> None"
    proof (cases "opt_prop ?t ''rounds''")
      case (JArr rs ps)
      with tp(9) have ps: "ps = []" and all: "list_all well_shaped_round rs"
        by (simp_all add: well_shaped_rounds_def)
      from all have "list_all (\<lambda>x. \<exists>y. round_card x = Some y) rs"
        by (simp add: list_all_iff round_card_well_shaped)
      from all_or_none_Some [OF this] JArr ps show ?thesis
        by (auto simp: js_or_def forEach_elements_def)
    qed (use tp(9) in \<open>simp_all add: well_shaped_rounds_def js_or_def forEach_elements_def\<close>)
    then show ?thesis
      unfolding never_throws_def render_rounds_region_def renderRounds_rebuild
      by (intro allI rebuild_never_throws)
  qed
  show ?thesis
    unfolding applyPayload_def
    by (rule run_steps_never_throws) (simp add: updateStatus_well_shaped [OF assms] 1 2 3 4)
qed

lemma received_payload_well_shaped:
  assumes "well_shaped_payload data"
  shows "well_shaped_payload (received_payload ok data)"
proof (cases ok)
  case True
  with assms show ?thesis by (simp add: received_payload_def)
next
  case False
  have e: "is_scalar (js_or v (JStr m))" if "is_scalar v" for v m
    using that by (simp add: js_or_def is_scalar_def)
  show ?thesis
  proof (cases data)
    case (JObj ps)
    with assms False show ?thesis
      by (simp add: received_payload_def js_or_def well_shaped_payload_def own_prop_def
          map_of_update_prop is_scalar_def)
  qed (use assms False in \<open>simp_all add: received_payload_def js_or_def well_shaped_payload_def
          own_prop_def is_scalar_def well_shaped_tournament_def\<close>)
qed

lemma well_shaped_result_renders:
  assumes "well_shaped_result r"
  shows "\<not> first_render_throws r st"
proof (cases r)
  case NetworkError
  then show ?thesis by (simp add: first_render_throws_def)
next
  case (Response ok body)
  show ?thesis
  proof (cases body)
    case None
    with Response show ?thesis by (simp add: first_render_throws_def)
  next
    case (Some data)
    with assms Response have "well_shaped_payload data"
      by (simp add: well_shaped_result_def)
    from applyPayload_well_shaped [OF received_payload_well_shaped [OF this, of ok]]
    obtain d where "applyPayload (received_payload ok data) (root st) = Done d"
      by (auto simp: never_throws_def)
    with Response Some show ?thesis by (simp add: first_render_throws_def)
  qed
qed

subsection \<open>One cycle\<close>

text \<open>
  C2 as stated fails when rendering the received payload throws: the \<^verbatim>\<open>catch\<close> handler
  that follows the \<^verbatim>\<open>then\<close> handler in the chain runs as well, and \<^verbatim>\<open>applyPayload\<close> is called a
  second time.  Here the first request of a freshly started poller is answered with a
  tournament whose list of rounds holds \<^verbatim>\<open>null\<close>.
\<close>

theorem poll_cycle_counterexample:
  "reachable (start_poller small_page) \<and> in_flight (start_poller small_page) = 1 \<and>
   rendered_payloads
     (new_events (start_poller small_page)
        (fetch_completes (Response True (Some null_round_payload)) (start_poller small_page)))
   = [null_round_payload, error_payload]"
proof -
  have "rendered_payloads
     (new_events (start_poller small_page)
        (fetch_completes (Response True (Some null_round_payload)) (start_poller small_page)))
   = [null_round_payload, error_payload]"
    by code_simp
  moreover have "in_flight (start_poller small_page) = 1"
    by (simp add: start_poller_def fetchAndRender_def)
  ultimately show ?thesis
    by (simp add: reachable.start)
qed

text \<open>
  C2, as amended.  In every state the poller can reach, exactly one cycle is alive: one
  request in flight or one timeout pending, never both and never two.  When the request
  completes, with whatever result, exactly one timeout is set, with a delay of 15000 ms,
  and it is then the only one pending; \<^verbatim>\<open>applyPayload\<close> is called once, with the payload the
  result leads to, unless rendering a received payload throws, in which case it is called
  a second time with the synthesized error payload.  Rendering does not throw when the
  request failed or the body has the documented shape.  When the timeout fires, the next
  request is issued and no timeout is set: a cycle is scheduled from a completion handler
  only.
\<close>

theorem poll_cycle:
  assumes "reachable st"
  shows "in_flight st + length (pending st) = 1 \<and>
         (in_flight st > 0 \<longrightarrow>
            scheduled_delays (new_events st (fetch_completes r st)) = [15000] \<and>
            pending (fetch_completes r st) = [(next_id st, 15000)] \<and>
            in_flight (fetch_completes r st) = 0 \<and>
            rendered_payloads (new_events st (fetch_completes r st)) =
              (if first_render_throws r st then [payload_to_render r, error_payload]
               else [payload_to_render r])) \<and>
         (well_shaped_result r \<longrightarrow> \<not> first_render_throws r st) \<and>
         (i \<in> fst ` set (pending st) \<longrightarrow>
            scheduled_delays (new_events st (timer_fires i st)) = [] \<and>
            pending (timer_fires i st) = [] \<and>
            in_flight (timer_fires i st) = 1)"
proof -
  from reachable_invariant [OF assms]
  have t: "timers_tracked st" and one: "in_flight st + length (pending st) = 1" by simp_all
  have c: "in_flight st > 0 \<Longrightarrow> in_flight st = 1" using one by simp
  have f: "i \<in> fst ` set (pending st) \<Longrightarrow> in_flight st = 0 \<and> (\<exists>d. pending st = [(i, d)])"
    using one by (cases "pending st") auto
  have fire: "scheduled_delays (new_events st (timer_fires i st)) = [] \<and>
            pending (timer_fires i st) = [] \<and> in_flight (timer_fires i st) = 1"
    if "i \<in> fst ` set (pending st)"
  proof -
    from f [OF that] obtain d where "in_flight st = 0" and "pending st = [(i, d)]" by blast
    then show ?thesis by (simp add: timer_fires_effect)
  qed
  have complete: "scheduled_delays (new_events st (fetch_completes r st)) = [15000] \<and>
            pending (fetch_completes r st) = [(next_id st, 15000)] \<and>
            in_flight (fetch_completes r st) = 0 \<and>
            rendered_payloads (new_events st (fetch_completes r st)) =
              (if first_render_throws r st then [payload_to_render r, error_payload]
               else [payload_to_render r])"
    if "in_flight st > 0"
    using c [OF that] t by (simp add: fetch_completes_effect REFRESH_MS_def)
  from one fire complete well_shaped_result_renders [of r st] show ?thesis by blast
qed

theorem poll_cycle_witness:
  "reachable (start_poller small_page) \<and> in_flight (start_poller small_page) > 0 \<and>
   \<not> first_render_throws (Response True (Some error_payload)) (start_poller small_page) \<and>
   scheduled_delays (new_events (start_poller small_page)
      (fetch_completes (Response True (Some error_payload)) (start_poller small_page))) = [15000] \<and>
   rendered_payloads (new_events (start_poller small_page)
      (fetch_completes (Response True (Some error_payload)) (start_poller small_page))) = [error_payload] \<and>
   in_flight (start_poller small_page) + length (pending (start_poller small_page)) = 1 \<and>
   well_shaped_result (Response True (Some error_payload))"
proof -
  have w: "well_shaped_result (Response True (Some error_payload))"
    by code_simp
  have r: "reachable (start_poller small_page)" by (rule reachable.start)
  have i: "in_flight (start_poller small_page) > 0"
    by (simp add: start_poller_def fetchAndRender_def)
  have p: "payload_to_render (Response True (Some error_payload)) = error_payload"
    by (simp add: payload_to_render_def received_payload_def)
  from poll_cycle [OF r, of "Response True (Some error_payload)" 0] w
  have n: "\<not> first_render_throws (Response True (Some error_payload)) (start_poller small_page)"
    by blast
  from poll_cycle [OF r, of "Response True (Some error_payload)" 0] r i n p w
  show ?thesis by simp
qed

subsection \<open>The timer\<close>

text \<open>
  C10.  In every state the poller can reach at most one timeout is pending; and however
  often \<^verbatim>\<open>scheduleNext\<close> is invoked from there, exactly one timeout is pending afterwards,
  the one set last: each invocation first clears the stored timeout and then sets a new
  one with a delay of 15000 ms.
\<close>

theorem single_pending_timer:
  assumes "reachable st"
  shows "length (pending st) \<le> 1 \<and>
         (\<forall>n. pending ((scheduleNext ^^ Suc n) st) = [(next_id st + n, 15000)]) \<and>
         new_events st (scheduleNext st) =
           (case timer st of None \<Rightarrow> [] | Some t \<Rightarrow> if t \<noteq> 0 then [ClearTimeout t] else [])
           @ [SetTimeout (next_id st) 15000]"
proof -
  from reachable_invariant [OF assms]
  have t: "timers_tracked st" and one: "in_flight st + length (pending st) = 1" by simp_all
  have "pending ((scheduleNext ^^ Suc n) st) = [(next_id st + n, 15000)]" for n
    using scheduleNext_funpow [OF t, of n]
    by (simp add: scheduleNext_tracked REFRESH_MS_def)
  moreover have "new_events st (scheduleNext st) =
           (case timer st of None \<Rightarrow> [] | Some t \<Rightarrow> if t \<noteq> 0 then [ClearTimeout t] else [])
           @ [SetTimeout (next_id st) 15000]"
    by (simp add: new_events_def scheduleNext_trace REFRESH_MS_def)
  ultimately show ?thesis using one by simp
qed

theorem single_pending_timer_witness:
  "reachable (fetch_completes NetworkError (start_poller small_page)) \<and>
   pending (fetch_completes NetworkError (start_poller small_page)) = [(1, 15000)] \<and>
   pending (scheduleNext (scheduleNext (fetch_completes NetworkError (start_poller small_page))))
     = [(3, 15000)] \<and>
   new_events (fetch_completes NetworkError (start_poller small_page))
      (scheduleNext (fetch_completes NetworkError (start_poller small_page)))
     = [ClearTimeout 1, SetTimeout 2 15000]"
proof -
  let ?st = "fetch_completes NetworkError (start_poller small_page)"
  have r: "reachable ?st"
    by (rule reachable.complete [OF reachable.start]) (simp add: start_poller_def fetchAndRender_def)
  have p: "pending ?st = [(1, 15000)]" and n: "next_id ?st = 2" and t: "timer ?st = Some 1"
    by code_simp+
  from single_pending_timer [OF r]
  have "pending ((scheduleNext ^^ Suc 1) ?st) = [(next_id ?st + 1, 15000)]"
    and "new_events ?st (scheduleNext ?st) =
           (case timer ?st of None \<Rightarrow> [] | Some t \<Rightarrow> if t \<noteq> 0 then [ClearTimeout t] else [])
           @ [SetTimeout (next_id ?st) 15000]"
    by blast+
  with r p n t show ?thesis by simp
qed


subsection \<open>Responses that are not OK, and failures\<close>

lemma get_prop_assign_prop:
  assumes "is_object v" and "k \<noteq> ''length''"
  shows "get_prop (assign_prop v k x) k' = (if k' = k then x else get_prop v k')"
  using assms
  by (cases v) (auto simp: is_object_def own_prop_def map_of_update_prop)

lemma falsy_or_object: "is_object data \<or> \<not> truthy data \<Longrightarrow> is_object (js_or data (JObj []))"
  by (auto simp: js_or_def is_object_def)

lemma falsy_error: "\<not> truthy data \<Longrightarrow> get_prop data ''error'' = JUndefined"
  by (cases data) auto

text \<open>
  C5 as stated fails for a body that is a truthy primitive: the assignment to its
  \<^verbatim>\<open>error\<close> property is dropped, so the body is rendered as it is, it has no \<^verbatim>\<open>error\<close>, and
  the banner stays hidden.
\<close>

theorem non_ok_body_counterexample:
  "rendered_payloads
     (new_events (start_poller small_page)
        (fetch_completes (Response False (Some (JStr ''Service Unavailable''))) (start_poller small_page)))
     = [JStr ''Service Unavailable''] \<and>
   opt_prop (JStr ''Service Unavailable'') ''error'' = JUndefined \<and>
   querySelector_at small_page [0] ''data-challonge-error'' = Some [0, 1] \<and>
   banner_hidden
     (root (fetch_completes (Response False (Some (JStr ''Service Unavailable''))) (start_poller small_page)))
     [0, 1]"
  by code_simp

text \<open>
  C5, as amended.  For a response that is not OK and whose body parses to an object, an
  array or a falsy value, the payload passed to the renderer is that body (an empty object
  for a falsy one) with its \<^verbatim>\<open>error\<close> property kept when truthy and set to the generic
  message otherwise; every other property reads as in the body.
\<close>

theorem non_ok_body_gets_error:
  assumes "is_object data \<or> \<not> truthy data"
  shows "hd (rendered_payloads
               (new_events st (fetch_completes (Response False (Some data)) st)))
           = received_payload False data \<and>
         get_prop (received_payload False data) ''error'' =
           (if truthy (get_prop data ''error'') then get_prop data ''error''
            else JStr ''Unable to load tournament data.'') \<and>
         (\<forall>k. k \<noteq> ''error'' \<longrightarrow>
            get_prop (received_payload False data) k = get_prop (js_or data (JObj [])) k)"
proof -
  have o: "is_object (js_or data (JObj []))"
    using assms by (rule falsy_or_object)
  have e: "get_prop (js_or data (JObj [])) ''error'' = get_prop data ''error''"
    by (cases "truthy data") (simp_all add: js_or_def falsy_error own_prop_def)
  have h: "hd (rendered_payloads
               (new_events st (fetch_completes (Response False (Some data)) st)))
           = received_payload False data"
    by (simp add: fetch_completes_effect payload_to_render_def)
  have g: "get_prop (received_payload False data) k =
      (if k = ''error'' then js_or (get_prop data ''error'') (JStr ''Unable to load tournament data.'')
       else get_prop (js_or data (JObj [])) k)" for k
    by (simp add: received_payload_def Let_def get_prop_assign_prop [OF o] e)
  show ?thesis
    using h g by (simp add: js_or_def)
qed

theorem non_ok_body_gets_error_witness:
  "is_object (JObj [(''message'', JStr ''Service Unavailable'')]) \<and>
   received_payload False (JObj [(''message'', JStr ''Service Unavailable'')]) =
     JObj [(''message'', JStr ''Service Unavailable''), (''error'', JStr ''Unable to load tournament data.'')] \<and>
   hd (rendered_payloads
         (new_events (start_poller small_page)
            (fetch_completes (Response False (Some (JObj [(''message'', JStr ''Service Unavailable'')])))
               (start_poller small_page))))
     = JObj [(''message'', JStr ''Service Unavailable''), (''error'', JStr ''Unable to load tournament data.'')]"
proof -
  let ?d = "JObj [(''message'', JStr ''Service Unavailable'')]"
  have o: "is_object ?d \<or> \<not> truthy ?d" by (simp add: is_object_def)
  have r: "received_payload False ?d =
     JObj [(''message'', JStr ''Service Unavailable''), (''error'', JStr ''Unable to load tournament data.'')]"
    by (simp add: received_payload_def js_or_def own_prop_def)
  from non_ok_body_gets_error [OF o, of "start_poller small_page"] r
  show ?thesis by (simp add: is_object_def)
qed

text \<open>
  C6 as stated names a message that is not the one in the code: the synthesized payload
  carries \<^verbatim>\<open>Unable to load tournament data.\<close>, capitalised and with a full stop.
\<close>

theorem failure_payload_counterexample:
  "rendered_payloads
     (new_events (start_poller small_page) (fetch_completes NetworkError (start_poller small_page)))
     = [JObj [(''configured'', JBool True),
              (''error'', JStr ''Unable to load tournament data.''),
              (''tournament'', JNull)]] \<and>
   JObj [(''configured'', JBool True),
         (''error'', JStr ''Unable to load tournament data.''),
         (''tournament'', JNull)]
     \<noteq> JObj [(''configured'', JBool True),
              (''error'', JStr ''unable to load tournament data''),
              (''tournament'', JNull)]"
  by code_simp

text \<open>
  C6, as amended.  When the request fails or the body does not parse, the handler logs
  to the console and then calls \<^verbatim>\<open>applyPayload\<close>, once, with the payload
  \<^verbatim>\<open>{configured: true, error: 'Unable to load tournament data.', tournament: null}\<close>; that
  pass completes, and the page is left as it renders this payload.
\<close>

theorem failure_renders_error_payload:
  "(\<exists>es. new_events st (fetch_completes NetworkError st) =
            ConsoleError # ApplyPayload error_payload # es \<and> rendered_payloads es = []) \<and>
   (\<exists>es. new_events st (fetch_completes (Response ok None) st) =
            ConsoleError # ApplyPayload error_payload # es \<and> rendered_payloads es = []) \<and>
   error_payload = JObj [(''configured'', JBool True),
                         (''error'', JStr ''Unable to load tournament data.''),
                         (''tournament'', JNull)] \<and>
   applyPayload error_payload (root st) = Done (root (fetch_completes NetworkError st)) \<and>
   applyPayload error_payload (root st) = Done (root (fetch_completes (Response ok None) st))"
proof -
  let ?st0 = "st\<lparr>in_flight := in_flight st - 1\<rparr>"
  from on_rejected_eq [of ?st0] obtain d where
    d: "applyPayload error_payload (root st) = Done d"
    and eq: "on_rejected ?st0 =
      scheduleNext (?st0\<lparr>root := d, trace := trace ?st0 @ [ConsoleError, ApplyPayload error_payload]\<rparr>)"
    by auto
  have a: "fetch_completes NetworkError st = on_rejected ?st0"
    and b: "fetch_completes (Response ok None) st = on_rejected ?st0"
    by (simp_all add: fetch_completes_def)
  have tr: "new_events st (on_rejected ?st0) =
      ConsoleError # ApplyPayload error_payload #
        ((case timer st of None \<Rightarrow> [] | Some t \<Rightarrow> if t \<noteq> 0 then [ClearTimeout t] else [])
         @ [SetTimeout (next_id st) REFRESH_MS])"
    by (simp only: eq) (simp add: new_events_def scheduleNext_trace)
  have rp: "rendered_payloads
      ((case timer st of None \<Rightarrow> [] | Some t \<Rightarrow> if t \<noteq> 0 then [ClearTimeout t] else [])
         @ [SetTimeout (next_id st) REFRESH_MS]) = []"
    by (simp split: option.splits)
  have rt: "root (on_rejected ?st0) = d"
    by (simp only: eq) (simp add: scheduleNext_fields)
  show ?thesis
    using tr rp rt d by (simp add: a b error_payload_def)
qed

end
